theory Spec2Isabelle
  imports Main "HOL-Library.AList"
begin

section \<open>The task manager of \<^verbatim>\<open>tarefa_prioridade.py\<close>\<close>

text \<open>
  The program keeps one FIFO queue of tasks per priority class in a dictionary and serves
  the priority classes in ascending numeric order. Its three Python classes are modelled
  as they are written:
  \<^item> \<^verbatim>\<open>Tarefa\<close> and \<^verbatim>\<open>FilaTarefas\<close> are records of their attributes;
  \<^item> the dictionary \<^verbatim>\<open>filas_prioridades\<close> is an association list in insertion order
    (a Python dictionary iterates in insertion order); \<^verbatim>\<open>d[k]\<close> is \<open>map_of d k\<close>, with
    \<^verbatim>\<open>KeyError\<close> as a value where the key is missing, and a queue that a method mutates in
    place is written back under its key with \<open>AList.update\<close>, which keeps the position of
    an existing key;
  \<^item> every method of the manager takes the manager and returns its result together with
    the manager after the call;
  \<^item> Python integers are \<open>int\<close>; strings are \<open>string\<close>, a non-ASCII character being
    the bytes of its UTF-8 encoding.
  The lines the methods print on the console are not part of the manager's state or of any
  return value, and are left out of the model; \<^verbatim>\<open>listar_todas_tarefas\<close>, which only prints,
  is left out with them.
\<close>

subsection \<open>\<^verbatim>\<open>class Tarefa\<close>\<close>

record Tarefa =
  nome :: string
  descricao :: string
  prioridade :: int

text \<open>
  The local \<^verbatim>\<open>prioridade_texto\<close> of \<^verbatim>\<open>Tarefa.__str__\<close>: a dictionary literal with
  the keys 1, 2 and 3 is read with \<^verbatim>\<open>.get(self.prioridade, "Desconhecida")\<close>. The labels
  are the source's own, in Portuguese; the second one has an e with acute accent (bytes
  C3 A9) after its first letter.
\<close>

definition prioridade_texto :: "int \<Rightarrow> string" where
  "prioridade_texto p =
     (case map_of [(1, ''Alta''), (2, ''M'' @ [CHR 0xC3, CHR 0xA9] @ ''dia''), (3, ''Baixa'')] p of
        Some texto \<Rightarrow> texto
      | None \<Rightarrow> ''Desconhecida'')"

text \<open>
  \<^verbatim>\<open>Tarefa.__str__\<close> is one f-string: the name, the label in parentheses, a line
  break, and the description after a Portuguese heading whose c with cedilla and a with
  tilde are the bytes C3 A7 and C3 A3.
\<close>

definition Tarefa_str :: "Tarefa \<Rightarrow> string" where
  "Tarefa_str t =
     ''Tarefa: '' @ nome t @ '' (Prioridade: '' @ prioridade_texto (prioridade t) @ '')''
       @ [CHR 0x0A] @ ''Descri'' @ [CHR 0xC3, CHR 0xA7, CHR 0xC3, CHR 0xA3] @ ''o: ''
       @ descricao t"

subsection \<open>\<^verbatim>\<open>class FilaTarefas\<close>\<close>

record FilaTarefas =
  tarefas :: "Tarefa list"

definition FilaTarefas_init :: FilaTarefas where
  "FilaTarefas_init = \<lparr>tarefas = []\<rparr>"

definition adicionar :: "FilaTarefas \<Rightarrow> Tarefa \<Rightarrow> FilaTarefas" where
  "adicionar fila tarefa = fila\<lparr>tarefas := tarefas fila @ [tarefa]\<rparr>"

definition esta_vazia :: "FilaTarefas \<Rightarrow> bool" where
  "esta_vazia fila = (int (length (tarefas fila)) = 0)"

text \<open>
  \<^verbatim>\<open>remover\<close> pops index 0 only behind the emptiness test, so \<open>hd\<close> and \<open>tl\<close> are
  applied to a non-empty list.
\<close>

definition remover :: "FilaTarefas \<Rightarrow> Tarefa option \<times> FilaTarefas" where
  "remover fila =
     (if \<not> esta_vazia fila
      then (Some (hd (tarefas fila)), fila\<lparr>tarefas := tl (tarefas fila)\<rparr>)
      else (None, fila))"

definition frente :: "FilaTarefas \<Rightarrow> Tarefa option" where
  "frente fila = (if \<not> esta_vazia fila then Some (hd (tarefas fila)) else None)"

definition tamanho :: "FilaTarefas \<Rightarrow> int" where
  "tamanho fila = int (length (tarefas fila))"

subsection \<open>\<^verbatim>\<open>class GerenciadorTarefas\<close>\<close>

datatype erro = KeyError

record GerenciadorTarefas =
  filas_prioridades :: "(int \<times> FilaTarefas) list"

definition GerenciadorTarefas_init :: GerenciadorTarefas where
  "GerenciadorTarefas_init =
     \<lparr>filas_prioridades = [(1, FilaTarefas_init), (2, FilaTarefas_init), (3, FilaTarefas_init)]\<rparr>"

text \<open>
  \<^verbatim>\<open>adicionar_tarefa\<close>: \<^verbatim>\<open>False\<close> for a priority that is not a key of the dictionary,
  otherwise the task goes to the tail of the queue under its priority.
\<close>

definition adicionar_tarefa ::
  "GerenciadorTarefas \<Rightarrow> Tarefa \<Rightarrow> erro + (bool \<times> GerenciadorTarefas)" where
  "adicionar_tarefa g tarefa =
     (if prioridade tarefa \<notin> set (map fst (filas_prioridades g))
      then Inr (False, g)
      else (case map_of (filas_prioridades g) (prioridade tarefa) of
              None \<Rightarrow> Inl KeyError
            | Some fila \<Rightarrow>
                Inr (True,
                     g\<lparr>filas_prioridades :=
                          AList.update (prioridade tarefa) (adicionar fila tarefa)
                            (filas_prioridades g)\<rparr>)))"

text \<open>
  The loop of \<^verbatim>\<open>proxima_tarefa\<close> over the sorted keys: the first queue that is not
  empty is dequeued and the loop returns; after the last key the method returns \<^verbatim>\<open>None\<close>.
\<close>

fun proxima_laco ::
  "int list \<Rightarrow> GerenciadorTarefas \<Rightarrow> erro + (Tarefa option \<times> GerenciadorTarefas)" where
  "proxima_laco [] g = Inr (None, g)"
| "proxima_laco (p # ps) g =
     (case map_of (filas_prioridades g) p of
        None \<Rightarrow> Inl KeyError
      | Some fila \<Rightarrow>
          if \<not> esta_vazia fila
          then (case remover fila of
                  (r, fila') \<Rightarrow>
                    Inr (r, g\<lparr>filas_prioridades :=
                                 AList.update p fila' (filas_prioridades g)\<rparr>))
          else proxima_laco ps g)"

definition proxima_tarefa ::
  "GerenciadorTarefas \<Rightarrow> erro + (Tarefa option \<times> GerenciadorTarefas)" where
  "proxima_tarefa g = proxima_laco (sort (map fst (filas_prioridades g))) g"

text \<open>
  \<^verbatim>\<open>visualizar_proxima_tarefa\<close> runs the same loop with \<^verbatim>\<open>frente\<close>, which assigns
  nothing, in the place of \<^verbatim>\<open>remover\<close>.
\<close>

fun visualizar_laco ::
  "int list \<Rightarrow> GerenciadorTarefas \<Rightarrow> erro + (Tarefa option \<times> GerenciadorTarefas)" where
  "visualizar_laco [] g = Inr (None, g)"
| "visualizar_laco (p # ps) g =
     (case map_of (filas_prioridades g) p of
        None \<Rightarrow> Inl KeyError
      | Some fila \<Rightarrow>
          if \<not> esta_vazia fila then Inr (frente fila, g) else visualizar_laco ps g)"

definition visualizar_proxima_tarefa ::
  "GerenciadorTarefas \<Rightarrow> erro + (Tarefa option \<times> GerenciadorTarefas)" where
  "visualizar_proxima_tarefa g = visualizar_laco (sort (map fst (filas_prioridades g))) g"

text \<open>
  \<^verbatim>\<open>estatisticas\<close> returns a dictionary with the keys \<^verbatim>\<open>"total"\<close> and
  \<^verbatim>\<open>"por_prioridade"\<close>; the inner dictionary is built from \<^verbatim>\<open>items()\<close>, in the order of
  the manager's dictionary.
\<close>

record Estatisticas =
  total_tarefas :: int
  por_prioridade :: "(int \<times> int) list"

definition estatisticas :: "GerenciadorTarefas \<Rightarrow> Estatisticas \<times> GerenciadorTarefas" where
  "estatisticas g =
     (\<lparr>total_tarefas = sum_list (map (\<lambda>fila. tamanho fila) (map snd (filas_prioridades g))),
       por_prioridade = map (\<lambda>(p, fila). (p, tamanho fila)) (filas_prioridades g)\<rparr>,
      g)"

subsection \<open>Sequences of calls\<close>

text \<open>
  A caller's session is a list of calls to the two methods that change the manager, run from
  left to right; the responses are collected in the order of the calls. An exception ends the
  run, as it would end the caller.
\<close>

datatype chamada = Adicionar Tarefa | Proxima

datatype resposta = Adicionada bool | Retirada "Tarefa option"

fun executar ::
  "chamada list \<Rightarrow> GerenciadorTarefas \<Rightarrow> erro + (resposta list \<times> GerenciadorTarefas)" where
  "executar [] g = Inr ([], g)"
| "executar (Adicionar tarefa # cs) g =
     (case adicionar_tarefa g tarefa of
        Inl e \<Rightarrow> Inl e
      | Inr (b, g') \<Rightarrow>
          (case executar cs g' of
             Inl e \<Rightarrow> Inl e
           | Inr (rs, g'') \<Rightarrow> Inr (Adicionada b # rs, g'')))"
| "executar (Proxima # cs) g =
     (case proxima_tarefa g of
        Inl e \<Rightarrow> Inl e
      | Inr (r, g') \<Rightarrow>
          (case executar cs g' of
             Inl e \<Rightarrow> Inl e
           | Inr (rs, g'') \<Rightarrow> Inr (Retirada r # rs, g'')))"

text \<open>The tasks handed to \<^verbatim>\<open>adicionar_tarefa\<close> and the tasks \<^verbatim>\<open>proxima_tarefa\<close> returned.\<close>

fun submetidas :: "chamada list \<Rightarrow> Tarefa list" where
  "submetidas [] = []"
| "submetidas (Adicionar tarefa # cs) = tarefa # submetidas cs"
| "submetidas (Proxima # cs) = submetidas cs"

fun retiradas :: "resposta list \<Rightarrow> Tarefa list" where
  "retiradas [] = []"
| "retiradas (Retirada (Some tarefa) # rs) = tarefa # retiradas rs"
| "retiradas (Retirada None # rs) = retiradas rs"
| "retiradas (Adicionada b # rs) = retiradas rs"

fun adicionada_com_sucesso :: "resposta \<Rightarrow> bool" where
  "adicionada_com_sucesso (Adicionada b) = b"
| "adicionada_com_sucesso (Retirada r) = False"

fun retirada_com_sucesso :: "resposta \<Rightarrow> bool" where
  "retirada_com_sucesso (Retirada (Some tarefa)) = True"
| "retirada_com_sucesso (Retirada None) = False"
| "retirada_com_sucesso (Adicionada b) = False"

definition da_classe :: "int \<Rightarrow> Tarefa list \<Rightarrow> Tarefa list" where
  "da_classe k ts = filter (\<lambda>t. prioridade t = k) ts"

subsection \<open>Vocabulary of the specification\<close>

text \<open>
  The recognized classes are the keys of the dictionary; the pending tasks of a class are
  the contents of its queue, oldest first; a class is pending when its queue holds a task.
\<close>

definition classes :: "GerenciadorTarefas \<Rightarrow> int list" where
  "classes g = map fst (filas_prioridades g)"

definition fila_da_classe :: "GerenciadorTarefas \<Rightarrow> int \<Rightarrow> Tarefa list" where
  "fila_da_classe g k =
     (case map_of (filas_prioridades g) k of Some fila \<Rightarrow> tarefas fila | None \<Rightarrow> [])"

definition classes_pendentes :: "GerenciadorTarefas \<Rightarrow> int list" where
  "classes_pendentes g = filter (\<lambda>k. fila_da_classe g k \<noteq> []) (classes g)"

definition total_estatisticas :: "GerenciadorTarefas \<Rightarrow> int" where
  "total_estatisticas g = total_tarefas (fst (estatisticas g))"

text \<open>
  Two facts hold of every manager the constructor and the methods produce: the keys of the
  dictionary are pairwise distinct (it is a dictionary), and a queue holds only tasks of
  its own class.
\<close>

definition chaves_distintas :: "GerenciadorTarefas \<Rightarrow> bool" where
  "chaves_distintas g = distinct (map fst (filas_prioridades g))"

definition roteado :: "GerenciadorTarefas \<Rightarrow> bool" where
  "roteado g =
     list_all (\<lambda>(k, fila). list_all (\<lambda>t. prioridade t = k) (tarefas fila)) (filas_prioridades g)"

section \<open>Properties of the model\<close>

subsection \<open>The loop of \<^verbatim>\<open>proxima_tarefa\<close>\<close>

lemma esta_vazia_iff [simp]: "esta_vazia fila \<longleftrightarrow> tarefas fila = []"
  by (simp add: esta_vazia_def)

lemma remover_nonempty:
  "tarefas fila \<noteq> [] \<Longrightarrow> remover fila = (Some (hd (tarefas fila)), fila\<lparr>tarefas := tl (tarefas fila)\<rparr>)"
  by (simp add: remover_def)

lemma proxima_laco_ordenado:
  assumes "sorted ps" and "k \<in> set ps"
    and "set ps \<subseteq> set (map fst (filas_prioridades g))"
    and "map_of (filas_prioridades g) k = Some fila" and "tarefas fila \<noteq> []"
    and "\<forall>p\<in>set ps. p < k \<longrightarrow> fila_da_classe g p = []"
  shows "proxima_laco ps g =
           Inr (Some (hd (tarefas fila)),
                g\<lparr>filas_prioridades :=
                     AList.update k (fila\<lparr>tarefas := tl (tarefas fila)\<rparr>) (filas_prioridades g)\<rparr>)"
  using assms
proof (induction ps)
  case Nil
  then show ?case by simp
next
  case (Cons p ps)
  show ?case
  proof (cases "p = k")
    case True
    with Cons.prems show ?thesis by (simp add: remover_nonempty)
  next
    case False
    with Cons.prems have pk: "p < k" and kin: "k \<in> set ps" by auto
    from Cons.prems have "p \<in> fst ` set (filas_prioridades g)" by auto
    then obtain f where f: "map_of (filas_prioridades g) p = Some f"
      by (metis domD dom_map_of_conv_image_fst)
    with Cons.prems pk have "tarefas f = []" by (simp add: fila_da_classe_def)
    moreover have "proxima_laco ps g = Inr (Some (hd (tarefas fila)),
                g\<lparr>filas_prioridades :=
                     AList.update k (fila\<lparr>tarefas := tl (tarefas fila)\<rparr>) (filas_prioridades g)\<rparr>)"
      using Cons.IH Cons.prems kin by auto
    ultimately show ?thesis using f by simp
  qed
qed

lemma proxima_laco_vazias:
  assumes "set ps \<subseteq> set (map fst (filas_prioridades g))"
    and "\<forall>p\<in>set ps. fila_da_classe g p = []"
  shows "proxima_laco ps g = Inr (None, g)"
  using assms
proof (induction ps)
  case Nil
  then show ?case by simp
next
  case (Cons p ps)
  from Cons.prems have "p \<in> fst ` set (filas_prioridades g)" by auto
  then obtain f where f: "map_of (filas_prioridades g) p = Some f"
    by (metis domD dom_map_of_conv_image_fst)
  with Cons.prems have "tarefas f = []" by (simp add: fila_da_classe_def)
  then show ?case using f Cons by simp
qed


lemma classes_pendentes_Min:
  assumes "classes_pendentes g \<noteq> []"
  shows "Min (set (classes_pendentes g)) \<in> set (classes g)"
    and "fila_da_classe g (Min (set (classes_pendentes g))) \<noteq> []"
    and "\<forall>p\<in>set (classes g). p < Min (set (classes_pendentes g)) \<longrightarrow> fila_da_classe g p = []"
proof -
  let ?S = "set (classes_pendentes g)"
  have fin: "finite ?S" and ne: "?S \<noteq> {}" using assms by auto
  have "Min ?S \<in> ?S" using fin ne by (rule Min_in)
  then show "Min ?S \<in> set (classes g)" and "fila_da_classe g (Min ?S) \<noteq> []"
    by (auto simp: classes_pendentes_def)
  show "\<forall>p\<in>set (classes g). p < Min ?S \<longrightarrow> fila_da_classe g p = []"
  proof (intro ballI impI)
    fix p assume p: "p \<in> set (classes g)" and lt: "p < Min ?S"
    show "fila_da_classe g p = []"
    proof (rule ccontr)
      assume "fila_da_classe g p \<noteq> []"
      with p have "p \<in> ?S" by (simp add: classes_pendentes_def)
      then have "Min ?S \<le> p" using fin by (rule Min_le[rotated])
      with lt show False by simp
    qed
  qed
qed

lemma fila_da_classe_naovazia:
  "fila_da_classe g k \<noteq> [] \<Longrightarrow> \<exists>fila. map_of (filas_prioridades g) k = Some fila \<and> tarefas fila \<noteq> [] \<and> tarefas fila = fila_da_classe g k"
  by (auto simp: fila_da_classe_def split: option.splits)

lemma proxima_tarefa_menor_classe:
  assumes "classes_pendentes g \<noteq> []"
  shows "\<exists>fila. map_of (filas_prioridades g) (Min (set (classes_pendentes g))) = Some fila
     \<and> tarefas fila \<noteq> []
     \<and> proxima_tarefa g =
           Inr (Some (hd (tarefas fila)),
                g\<lparr>filas_prioridades :=
                     AList.update (Min (set (classes_pendentes g))) (fila\<lparr>tarefas := tl (tarefas fila)\<rparr>) (filas_prioridades g)\<rparr>)"
proof -
  let ?k = "Min (set (classes_pendentes g))"
  from classes_pendentes_Min[OF assms] 
  have 1: "?k \<in> set (classes g)" and 2: "fila_da_classe g ?k \<noteq> []" 
    and 3: "\<forall>p\<in>set (classes g). p < ?k \<longrightarrow> fila_da_classe g p = []" by blast+
  from fila_da_classe_naovazia[OF 2] obtain fila where
    f: "map_of (filas_prioridades g) ?k = Some fila" "tarefas fila \<noteq> []" by blast
  have "proxima_laco (sort (map fst (filas_prioridades g))) g =  Inr (Some (hd (tarefas fila)),
                g\<lparr>filas_prioridades :=
                     AList.update ?k (fila\<lparr>tarefas := tl (tarefas fila)\<rparr>) (filas_prioridades g)\<rparr>)"
    using 1 3 f by (intro proxima_laco_ordenado) (auto simp: classes_def)
  with f show ?thesis by (auto simp: proxima_tarefa_def)
qed

lemma proxima_tarefa_sem_pendentes:
  assumes "classes_pendentes g = []"
  shows "proxima_tarefa g = Inr (None, g)"
proof -
  from assms have "\<forall>p\<in>set (classes g). fila_da_classe g p = []"
    by (auto simp: classes_pendentes_def filter_empty_conv)
  then show ?thesis unfolding proxima_tarefa_def
    by (intro proxima_laco_vazias) (auto simp: classes_def)
qed

subsection \<open>Writing a queue back into the dictionary\<close>

lemma map_of_chave:
  "k \<in> set (map fst d) \<Longrightarrow> \<exists>v. map_of d k = Some v"
  by (induction d) auto

lemma adicionar_tarefa_invalida:
  "prioridade t \<notin> set (classes g) \<Longrightarrow> adicionar_tarefa g t = Inr (False, g)"
  by (simp add: adicionar_tarefa_def classes_def)

lemma adicionar_tarefa_valida:
  assumes "prioridade t \<in> set (classes g)"
  shows "\<exists>fila. map_of (filas_prioridades g) (prioridade t) = Some fila \<and>
           adicionar_tarefa g t =
             Inr (True, g\<lparr>filas_prioridades :=
                            AList.update (prioridade t) (fila\<lparr>tarefas := tarefas fila @ [t]\<rparr>)
                              (filas_prioridades g)\<rparr>)"
proof -
  from assms obtain fila where "map_of (filas_prioridades g) (prioridade t) = Some fila"
    using map_of_chave[of "prioridade t" "filas_prioridades g"] by (auto simp: classes_def)
  with assms show ?thesis
    by (simp add: adicionar_tarefa_def classes_def adicionar_def)
qed

lemma classes_update:
  "k \<in> set (classes g) \<Longrightarrow>
     classes (g\<lparr>filas_prioridades := AList.update k fila (filas_prioridades g)\<rparr>) = classes g"
  by (simp add: classes_def AList.update_keys)

lemma fila_da_classe_update:
  "fila_da_classe (g\<lparr>filas_prioridades := AList.update k fila (filas_prioridades g)\<rparr>) k' =
     (if k' = k then tarefas fila else fila_da_classe g k')"
  by (simp add: fila_da_classe_def AList.update_conv')

lemma chaves_distintas_update:
  "chaves_distintas g \<Longrightarrow>
     chaves_distintas (g\<lparr>filas_prioridades := AList.update k fila (filas_prioridades g)\<rparr>)"
  by (simp add: chaves_distintas_def AList.distinct_update)

lemma set_update_subset:
  "set (AList.update k v d) \<subseteq> insert (k, v) (set d)"
  by (induction d) auto

lemma roteado_update:
  assumes "roteado g" and "\<forall>t\<in>set (tarefas fila). prioridade t = k"
  shows "roteado (g\<lparr>filas_prioridades := AList.update k fila (filas_prioridades g)\<rparr>)"
  using assms set_update_subset[of k fila "filas_prioridades g"]
  by (fastforce simp: roteado_def list_all_iff)

lemma roteado_map_of:
  "roteado g \<Longrightarrow> map_of (filas_prioridades g) k = Some fila \<Longrightarrow> t \<in> set (tarefas fila)
     \<Longrightarrow> prioridade t = k"
  by (auto simp: roteado_def list_all_iff dest!: map_of_SomeD)

lemma soma_update:
  "map_of d k = Some fila0 \<Longrightarrow>
     sum_list (map (tamanho \<circ> snd) (AList.update k fila d)) =
       sum_list (map (tamanho \<circ> snd) d) - tamanho fila0 + tamanho fila"
  by (induction d) auto

lemma total_update:
  "map_of (filas_prioridades g) k = Some fila0 \<Longrightarrow>
     total_estatisticas (g\<lparr>filas_prioridades := AList.update k fila (filas_prioridades g)\<rparr>) =
       total_estatisticas g - tamanho fila0 + tamanho fila"
  by (simp add: total_estatisticas_def estatisticas_def soma_update)

lemma soma_distintas:
  "distinct (map fst d) \<Longrightarrow>
     sum_list (map (tamanho \<circ> snd) d) =
       (\<Sum>k\<in>set (map fst d). int (length (case map_of d k of Some fila \<Rightarrow> tarefas fila | None \<Rightarrow> [])))"
proof (induction d)
  case Nil
  then show ?case by simp
next
  case (Cons a d)
  obtain k f where a: "a = (k, f)" by (cases a)
  from Cons.prems a have nk: "k \<notin> fst ` set d" and dd: "distinct (map fst d)" by auto
  have "(\<Sum>k'\<in>fst ` set d. int (length (case map_of (a # d) k' of Some fila \<Rightarrow> tarefas fila | None \<Rightarrow> [])))
      = (\<Sum>k'\<in>fst ` set d. int (length (case map_of d k' of Some fila \<Rightarrow> tarefas fila | None \<Rightarrow> [])))"
    using nk a by (intro sum.cong) auto
  then show ?case using Cons.IH[OF dd] nk a by (simp add: tamanho_def)
qed

lemma total_distintas:
  "chaves_distintas g \<Longrightarrow>
     total_estatisticas g = (\<Sum>k\<in>set (classes g). int (length (fila_da_classe g k)))"
  by (simp add: total_estatisticas_def estatisticas_def chaves_distintas_def classes_def
      fila_da_classe_def soma_distintas)

subsection \<open>One call\<close>

lemma proxima_tarefa_casos:
  "(classes_pendentes g = [] \<and> proxima_tarefa g = Inr (None, g)) \<or>
   (\<exists>k fila. k \<in> set (classes g) \<and> map_of (filas_prioridades g) k = Some fila \<and>
      tarefas fila \<noteq> [] \<and>
      proxima_tarefa g =
        Inr (Some (hd (tarefas fila)),
             g\<lparr>filas_prioridades :=
                  AList.update k (fila\<lparr>tarefas := tl (tarefas fila)\<rparr>) (filas_prioridades g)\<rparr>))"
proof (cases "classes_pendentes g = []")
  case True
  then show ?thesis by (simp add: proxima_tarefa_sem_pendentes)
next
  case False
  from proxima_tarefa_menor_classe[OF False] classes_pendentes_Min(1)[OF False]
  show ?thesis by blast
qed

lemma adicionar_tarefa_casos:
  "(prioridade t \<notin> set (classes g) \<and> adicionar_tarefa g t = Inr (False, g)) \<or>
   (\<exists>fila. prioridade t \<in> set (classes g) \<and>
      map_of (filas_prioridades g) (prioridade t) = Some fila \<and>
      adicionar_tarefa g t =
        Inr (True, g\<lparr>filas_prioridades :=
                       AList.update (prioridade t) (fila\<lparr>tarefas := tarefas fila @ [t]\<rparr>)
                         (filas_prioridades g)\<rparr>))"
  using adicionar_tarefa_invalida[of t g] adicionar_tarefa_valida[of t g] by blast

lemma proxima_tarefa_retorna: "\<exists>r g'. proxima_tarefa g = Inr (r, g')"
  using proxima_tarefa_casos[of g] by auto

lemma adicionar_tarefa_retorna: "\<exists>b g'. adicionar_tarefa g t = Inr (b, g')"
  using adicionar_tarefa_casos[of t g] by auto

lemma executar_retorna: "\<exists>rs g'. executar cs g = Inr (rs, g')"
proof (induction cs arbitrary: g)
  case Nil
  show ?case by simp
next
  case (Cons c cs)
  show ?case
  proof (cases c)
    case (Adicionar t)
    obtain b g1 where 1: "adicionar_tarefa g t = Inr (b, g1)"
      using adicionar_tarefa_retorna by blast
    obtain rs g2 where 2: "executar cs g1 = Inr (rs, g2)" using Cons.IH by blast
    show ?thesis using Adicionar 1 2 by simp
  next
    case Proxima
    obtain r g1 where 1: "proxima_tarefa g = Inr (r, g1)"
      using proxima_tarefa_retorna by blast
    obtain rs g2 where 2: "executar cs g1 = Inr (rs, g2)" using Cons.IH by blast
    show ?thesis using Proxima 1 2 by simp
  qed
qed

text \<open>The keys, their distinctness and the routing of tasks survive every call.\<close>

lemma proxima_tarefa_classes:
  "proxima_tarefa g = Inr (r, g') \<Longrightarrow> classes g' = classes g"
  using proxima_tarefa_casos[of g] by (auto simp: classes_update)

lemma adicionar_tarefa_classes:
  "adicionar_tarefa g t = Inr (b, g') \<Longrightarrow> classes g' = classes g"
  using adicionar_tarefa_casos[of t g] by (auto simp: classes_update)

lemma proxima_tarefa_distintas:
  "proxima_tarefa g = Inr (r, g') \<Longrightarrow> chaves_distintas g \<Longrightarrow> chaves_distintas g'"
  using proxima_tarefa_casos[of g] by (auto simp: chaves_distintas_update)

lemma adicionar_tarefa_distintas:
  "adicionar_tarefa g t = Inr (b, g') \<Longrightarrow> chaves_distintas g \<Longrightarrow> chaves_distintas g'"
  using adicionar_tarefa_casos[of t g] by (auto simp: chaves_distintas_update)

lemma proxima_tarefa_roteado:
  assumes "proxima_tarefa g = Inr (r, g')" and "roteado g"
  shows "roteado g'"
proof -
  from proxima_tarefa_casos[of g] show ?thesis
  proof (elim disjE conjE exE)
    assume "proxima_tarefa g = Inr (None, g)"
    with assms show ?thesis by simp
  next
    fix k fila
    assume m: "map_of (filas_prioridades g) k = Some fila" and ne: "tarefas fila \<noteq> []"
      and p: "proxima_tarefa g =
        Inr (Some (hd (tarefas fila)),
             g\<lparr>filas_prioridades :=
                  AList.update k (fila\<lparr>tarefas := tl (tarefas fila)\<rparr>) (filas_prioridades g)\<rparr>)"
    have "\<forall>t\<in>set (tl (tarefas fila)). prioridade t = k"
      using roteado_map_of[OF assms(2) m] by (auto dest: list.set_sel(2)[OF ne])
    then have "roteado (g\<lparr>filas_prioridades :=
                  AList.update k (fila\<lparr>tarefas := tl (tarefas fila)\<rparr>) (filas_prioridades g)\<rparr>)"
      using assms(2) by (intro roteado_update) auto
    with p assms(1) show ?thesis by simp
  qed
qed

lemma adicionar_tarefa_roteado:
  assumes "adicionar_tarefa g t = Inr (b, g')" and "roteado g"
  shows "roteado g'"
proof -
  from adicionar_tarefa_casos[of t g] show ?thesis
  proof (elim disjE conjE exE)
    assume "adicionar_tarefa g t = Inr (False, g)"
    with assms show ?thesis by simp
  next
    fix fila
    assume m: "map_of (filas_prioridades g) (prioridade t) = Some fila"
      and p: "adicionar_tarefa g t =
        Inr (True, g\<lparr>filas_prioridades :=
                       AList.update (prioridade t) (fila\<lparr>tarefas := tarefas fila @ [t]\<rparr>)
                         (filas_prioridades g)\<rparr>)"
    have "\<forall>t'\<in>set (tarefas fila @ [t]). prioridade t' = prioridade t"
      using roteado_map_of[OF assms(2) m] by auto
    then have "roteado (g\<lparr>filas_prioridades :=
                       AList.update (prioridade t) (fila\<lparr>tarefas := tarefas fila @ [t]\<rparr>)
                         (filas_prioridades g)\<rparr>)"
      using assms(2) by (intro roteado_update) auto
    with p assms(1) show ?thesis by simp
  qed
qed

text \<open>What a call does to the total.\<close>

lemma proxima_tarefa_total:
  assumes "proxima_tarefa g = Inr (r, g')"
  shows "total_estatisticas g' = total_estatisticas g - (if r = None then 0 else 1)"
proof -
  from proxima_tarefa_casos[of g] show ?thesis
  proof (elim disjE conjE exE)
    assume "proxima_tarefa g = Inr (None, g)"
    with assms show ?thesis by simp
  next
    fix k fila
    assume m: "map_of (filas_prioridades g) k = Some fila" and ne: "tarefas fila \<noteq> []"
      and p: "proxima_tarefa g =
        Inr (Some (hd (tarefas fila)),
             g\<lparr>filas_prioridades :=
                  AList.update k (fila\<lparr>tarefas := tl (tarefas fila)\<rparr>) (filas_prioridades g)\<rparr>)"
    from ne have "int (length (tl (tarefas fila))) = int (length (tarefas fila)) - 1"
      by (cases "tarefas fila") auto
    with p assms total_update[OF m] show ?thesis by (simp add: tamanho_def)
  qed
qed

lemma adicionar_tarefa_total:
  assumes "adicionar_tarefa g t = Inr (b, g')"
  shows "total_estatisticas g' = total_estatisticas g + (if b then 1 else 0)"
  using adicionar_tarefa_casos[of t g] assms
  by (auto simp: total_update tamanho_def)

text \<open>What a call does to the pending tasks of a class.\<close>

lemma proxima_tarefa_historia:
  assumes "proxima_tarefa g = Inr (r, g')" and "roteado g"
  shows "da_classe k (case r of None \<Rightarrow> [] | Some t \<Rightarrow> [t]) @ fila_da_classe g' k = fila_da_classe g k"
proof -
  from proxima_tarefa_casos[of g] show ?thesis
  proof (elim disjE conjE exE)
    assume "proxima_tarefa g = Inr (None, g)"
    with assms show ?thesis by (simp add: da_classe_def)
  next
    fix k' fila
    assume m: "map_of (filas_prioridades g) k' = Some fila" and ne: "tarefas fila \<noteq> []"
      and p: "proxima_tarefa g =
        Inr (Some (hd (tarefas fila)),
             g\<lparr>filas_prioridades :=
                  AList.update k' (fila\<lparr>tarefas := tl (tarefas fila)\<rparr>) (filas_prioridades g)\<rparr>)"
    have pr: "prioridade (hd (tarefas fila)) = k'"
      using roteado_map_of[OF assms(2) m] ne by simp
    have fk: "fila_da_classe g k' = tarefas fila" using m by (simp add: fila_da_classe_def)
    from p assms(1) have r: "r = Some (hd (tarefas fila))"
      and g': "g' = g\<lparr>filas_prioridades :=
                  AList.update k' (fila\<lparr>tarefas := tl (tarefas fila)\<rparr>) (filas_prioridades g)\<rparr>"
      by simp_all
    show ?thesis using pr fk ne by (simp add: r g' fila_da_classe_update da_classe_def)
  qed
qed

lemma adicionar_tarefa_historia:
  assumes "adicionar_tarefa g t = Inr (b, g')" and "k \<in> set (classes g)"
  shows "fila_da_classe g' k = fila_da_classe g k @ da_classe k [t]"
proof -
  from adicionar_tarefa_casos[of t g] show ?thesis
  proof (elim disjE conjE exE)
    assume "prioridade t \<notin> set (classes g)" and "adicionar_tarefa g t = Inr (False, g)"
    with assms show ?thesis by (auto simp: da_classe_def)
  next
    fix fila
    assume m: "map_of (filas_prioridades g) (prioridade t) = Some fila"
      and p: "adicionar_tarefa g t =
        Inr (True, g\<lparr>filas_prioridades :=
                       AList.update (prioridade t) (fila\<lparr>tarefas := tarefas fila @ [t]\<rparr>)
                         (filas_prioridades g)\<rparr>)"
    have fk: "fila_da_classe g (prioridade t) = tarefas fila"
      using m by (simp add: fila_da_classe_def)
    from p assms(1) have g': "g' = g\<lparr>filas_prioridades :=
                       AList.update (prioridade t) (fila\<lparr>tarefas := tarefas fila @ [t]\<rparr>)
                         (filas_prioridades g)\<rparr>" by simp
    show ?thesis using fk by (auto simp: g' fila_da_classe_update da_classe_def)
  qed
qed

subsection \<open>A sequence of calls\<close>

lemma executar_Adicionar_E:
  assumes "executar (Adicionar t # cs) g = Inr (rs, g')"
  obtains b g1 rs1 where "adicionar_tarefa g t = Inr (b, g1)"
    and "executar cs g1 = Inr (rs1, g')" and "rs = Adicionada b # rs1"
  using assms by (auto split: sum.splits prod.splits)

lemma executar_Proxima_E:
  assumes "executar (Proxima # cs) g = Inr (rs, g')"
  obtains r g1 rs1 where "proxima_tarefa g = Inr (r, g1)"
    and "executar cs g1 = Inr (rs1, g')" and "rs = Retirada r # rs1"
  using assms by (auto split: sum.splits prod.splits)

lemma retiradas_Retirada:
  "retiradas (Retirada r # rs) = (case r of None \<Rightarrow> [] | Some t \<Rightarrow> [t]) @ retiradas rs"
  by (cases r) simp_all

lemma da_classe_append: "da_classe k (xs @ ys) = da_classe k xs @ da_classe k ys"
  by (simp add: da_classe_def)

lemma executar_classes:
  "executar cs g = Inr (rs, g') \<Longrightarrow> classes g' = classes g"
proof (induction cs arbitrary: g rs)
  case Nil
  then show ?case by simp
next
  case (Cons c cs)
  show ?case
  proof (cases c)
    case (Adicionar t)
    from Cons.prems(1) have "executar (Adicionar t # cs) g = Inr (rs, g')"
      by (simp only: Adicionar)
    then obtain b g1 rs1 where 1: "adicionar_tarefa g t = Inr (b, g1)"
      and 2: "executar cs g1 = Inr (rs1, g')" and 3: "rs = Adicionada b # rs1"
      by (rule executar_Adicionar_E)
    show ?thesis using Cons.IH[OF 2] adicionar_tarefa_classes[OF 1] by simp
  next
    case Proxima
    from Cons.prems(1) have "executar (Proxima # cs) g = Inr (rs, g')"
      by (simp only: Proxima)
    then obtain r g1 rs1 where 1: "proxima_tarefa g = Inr (r, g1)"
      and 2: "executar cs g1 = Inr (rs1, g')" and 3: "rs = Retirada r # rs1"
      by (rule executar_Proxima_E)
    show ?thesis using Cons.IH[OF 2] proxima_tarefa_classes[OF 1] by simp
  qed
qed

lemma executar_distintas:
  "executar cs g = Inr (rs, g') \<Longrightarrow> chaves_distintas g \<Longrightarrow> chaves_distintas g'"
proof (induction cs arbitrary: g rs)
  case Nil
  then show ?case by simp
next
  case (Cons c cs)
  show ?case
  proof (cases c)
    case (Adicionar t)
    from Cons.prems(1) have "executar (Adicionar t # cs) g = Inr (rs, g')"
      by (simp only: Adicionar)
    then obtain b g1 rs1 where 1: "adicionar_tarefa g t = Inr (b, g1)"
      and 2: "executar cs g1 = Inr (rs1, g')" and 3: "rs = Adicionada b # rs1"
      by (rule executar_Adicionar_E)
    show ?thesis using Cons.IH[OF 2] adicionar_tarefa_distintas[OF 1 Cons.prems(2)] by simp
  next
    case Proxima
    from Cons.prems(1) have "executar (Proxima # cs) g = Inr (rs, g')"
      by (simp only: Proxima)
    then obtain r g1 rs1 where 1: "proxima_tarefa g = Inr (r, g1)"
      and 2: "executar cs g1 = Inr (rs1, g')" and 3: "rs = Retirada r # rs1"
      by (rule executar_Proxima_E)
    show ?thesis using Cons.IH[OF 2] proxima_tarefa_distintas[OF 1 Cons.prems(2)] by simp
  qed
qed

lemma executar_roteado:
  "executar cs g = Inr (rs, g') \<Longrightarrow> roteado g \<Longrightarrow> roteado g'"
proof (induction cs arbitrary: g rs)
  case Nil
  then show ?case by simp
next
  case (Cons c cs)
  show ?case
  proof (cases c)
    case (Adicionar t)
    from Cons.prems(1) have "executar (Adicionar t # cs) g = Inr (rs, g')"
      by (simp only: Adicionar)
    then obtain b g1 rs1 where 1: "adicionar_tarefa g t = Inr (b, g1)"
      and 2: "executar cs g1 = Inr (rs1, g')" and 3: "rs = Adicionada b # rs1"
      by (rule executar_Adicionar_E)
    show ?thesis using Cons.IH[OF 2] adicionar_tarefa_roteado[OF 1 Cons.prems(2)] by simp
  next
    case Proxima
    from Cons.prems(1) have "executar (Proxima # cs) g = Inr (rs, g')"
      by (simp only: Proxima)
    then obtain r g1 rs1 where 1: "proxima_tarefa g = Inr (r, g1)"
      and 2: "executar cs g1 = Inr (rs1, g')" and 3: "rs = Retirada r # rs1"
      by (rule executar_Proxima_E)
    show ?thesis using Cons.IH[OF 2] proxima_tarefa_roteado[OF 1 Cons.prems(2)] by simp
  qed
qed

lemma executar_total:
  "executar cs g = Inr (rs, g') \<Longrightarrow>
     total_estatisticas g' =
       total_estatisticas g + int (length (filter adicionada_com_sucesso rs))
         - int (length (filter retirada_com_sucesso rs))"
proof (induction cs arbitrary: g rs)
  case Nil
  then show ?case by auto
next
  case (Cons c cs)
  show ?case
  proof (cases c)
    case (Adicionar t)
    from Cons.prems(1) have "executar (Adicionar t # cs) g = Inr (rs, g')"
      by (simp only: Adicionar)
    then obtain b g1 rs1 where 1: "adicionar_tarefa g t = Inr (b, g1)"
      and 2: "executar cs g1 = Inr (rs1, g')" and 3: "rs = Adicionada b # rs1"
      by (rule executar_Adicionar_E)
    show ?thesis using Cons.IH[OF 2] adicionar_tarefa_total[OF 1] by (simp add: 3)
  next
    case Proxima
    from Cons.prems(1) have "executar (Proxima # cs) g = Inr (rs, g')"
      by (simp only: Proxima)
    then obtain r g1 rs1 where 1: "proxima_tarefa g = Inr (r, g1)"
      and 2: "executar cs g1 = Inr (rs1, g')" and 3: "rs = Retirada r # rs1"
      by (rule executar_Proxima_E)
    show ?thesis using Cons.IH[OF 2] proxima_tarefa_total[OF 1] by (cases r) (simp_all add: 3)
  qed
qed

lemma executar_historia:
  "executar cs g = Inr (rs, g') \<Longrightarrow> roteado g \<Longrightarrow> k \<in> set (classes g) \<Longrightarrow>
     da_classe k (retiradas rs) @ fila_da_classe g' k =
       fila_da_classe g k @ da_classe k (submetidas cs)"
proof (induction cs arbitrary: g rs)
  case Nil
  then show ?case by (auto simp: da_classe_def)
next
  case (Cons c cs)
  show ?case
  proof (cases c)
    case (Adicionar t)
    from Cons.prems(1) have "executar (Adicionar t # cs) g = Inr (rs, g')"
      by (simp only: Adicionar)
    then obtain b g1 rs1 where 1: "adicionar_tarefa g t = Inr (b, g1)"
      and 2: "executar cs g1 = Inr (rs1, g')" and 3: "rs = Adicionada b # rs1"
      by (rule executar_Adicionar_E)
    have r1: "roteado g1" using adicionar_tarefa_roteado[OF 1 Cons.prems(2)] .
    have k1: "k \<in> set (classes g1)" using adicionar_tarefa_classes[OF 1] Cons.prems(3) by simp
    have "da_classe k (retiradas rs) @ fila_da_classe g' k =
            da_classe k (retiradas rs1) @ fila_da_classe g' k" by (simp add: 3)
    also have "\<dots> = fila_da_classe g1 k @ da_classe k (submetidas cs)"
      using Cons.IH[OF 2 r1 k1] .
    also have "\<dots> = (fila_da_classe g k @ da_classe k [t]) @ da_classe k (submetidas cs)"
      using adicionar_tarefa_historia[OF 1 Cons.prems(3)] by simp
    also have "\<dots> = fila_da_classe g k @ da_classe k (submetidas (c # cs))"
      by (simp add: Adicionar da_classe_def)
    finally show ?thesis .
  next
    case Proxima
    from Cons.prems(1) have "executar (Proxima # cs) g = Inr (rs, g')"
      by (simp only: Proxima)
    then obtain r g1 rs1 where 1: "proxima_tarefa g = Inr (r, g1)"
      and 2: "executar cs g1 = Inr (rs1, g')" and 3: "rs = Retirada r # rs1"
      by (rule executar_Proxima_E)
    have r1: "roteado g1" using proxima_tarefa_roteado[OF 1 Cons.prems(2)] .
    have k1: "k \<in> set (classes g1)" using proxima_tarefa_classes[OF 1] Cons.prems(3) by simp
    have "da_classe k (retiradas rs) @ fila_da_classe g' k =
            da_classe k (case r of None \<Rightarrow> [] | Some t \<Rightarrow> [t])
              @ (da_classe k (retiradas rs1) @ fila_da_classe g' k)"
      by (simp add: 3 retiradas_Retirada da_classe_append)
    also have "\<dots> = (da_classe k (case r of None \<Rightarrow> [] | Some t \<Rightarrow> [t]) @ fila_da_classe g1 k)
                      @ da_classe k (submetidas cs)"
      using Cons.IH[OF 2 r1 k1] by simp
    also have "\<dots> = fila_da_classe g k @ da_classe k (submetidas (c # cs))"
      using proxima_tarefa_historia[OF 1 Cons.prems(2), of k] by (simp add: Proxima)
    finally show ?thesis .
  qed
qed

lemma submetidas_append: "submetidas (xs @ ys) = submetidas xs @ submetidas ys"
  by (induction xs rule: submetidas.induct) simp_all

subsection \<open>The manager the constructor builds\<close>

lemma GerenciadorTarefas_init_classes: "classes GerenciadorTarefas_init = [1, 2, 3]"
  by (simp add: classes_def GerenciadorTarefas_init_def)

lemma GerenciadorTarefas_init_distintas: "chaves_distintas GerenciadorTarefas_init"
  by (simp add: chaves_distintas_def GerenciadorTarefas_init_def)

lemma GerenciadorTarefas_init_roteado: "roteado GerenciadorTarefas_init"
  by (simp add: roteado_def GerenciadorTarefas_init_def FilaTarefas_init_def)

lemma GerenciadorTarefas_init_total: "total_estatisticas GerenciadorTarefas_init = 0"
  by (simp add: total_estatisticas_def estatisticas_def GerenciadorTarefas_init_def
      FilaTarefas_init_def tamanho_def)

text \<open>
  Every manager a caller can reach from the constructor has the three keys of the source,
  pairwise distinct, and only tasks of class \<open>k\<close> in the queue of class \<open>k\<close>.
\<close>

lemma executar_init_invariantes:
  assumes "executar cs GerenciadorTarefas_init = Inr (rs, g)"
  shows "classes g = [1, 2, 3]" and "chaves_distintas g" and "roteado g"
  using executar_classes[OF assms] executar_distintas[OF assms]
    executar_roteado[OF assms] GerenciadorTarefas_init_classes
    GerenciadorTarefas_init_distintas GerenciadorTarefas_init_roteado
  by simp_all

subsection \<open>Statistics, peeking and draining\<close>

lemma por_prioridade_map_of:
  "map_of (map (\<lambda>(p, fila). (p, tamanho fila)) d) k = map_option tamanho (map_of d k)"
  by (induction d) auto

lemma visualizar_laco_proxima_laco:
  "(visualizar_laco ps g = Inl KeyError \<and> proxima_laco ps g = Inl KeyError) \<or>
   (\<exists>r g'. visualizar_laco ps g = Inr (r, g) \<and> proxima_laco ps g = Inr (r, g'))"
  by (induction ps) (auto simp: frente_def remover_def split: option.splits)

lemma total_nao_negativo: "0 \<le> total_estatisticas g"
  by (auto simp: total_estatisticas_def estatisticas_def tamanho_def intro!: sum_list_nonneg)

lemma sem_pendentes_total_zero:
  assumes "chaves_distintas g" and "classes_pendentes g = []"
  shows "total_estatisticas g = 0"
proof -
  from assms(2) have "\<forall>k\<in>set (classes g). fila_da_classe g k = []"
    by (auto simp: classes_pendentes_def filter_empty_conv)
  then show ?thesis using total_distintas[OF assms(1)] by simp
qed

lemma total_zero_sem_pendentes:
  assumes "total_estatisticas g = 0"
  shows "classes_pendentes g = []"
proof -
  have "sum_list (map (tamanho \<circ> snd) (filas_prioridades g)) = 0"
    using assms by (simp add: total_estatisticas_def estatisticas_def)
  moreover have "\<And>x. x \<in> set (map (tamanho \<circ> snd) (filas_prioridades g)) \<Longrightarrow> 0 \<le> x"
    by (auto simp: tamanho_def)
  ultimately have "\<forall>x\<in>set (map (tamanho \<circ> snd) (filas_prioridades g)). x = 0"
    by (simp only: sum_list_nonneg_eq_0_iff)
  then have "\<forall>(k, fila)\<in>set (filas_prioridades g). tarefas fila = []"
    by (auto simp: tamanho_def)
  then have "\<forall>k. fila_da_classe g k = []"
    by (auto simp: fila_da_classe_def split: option.splits dest!: map_of_SomeD)
  then show ?thesis by (simp add: classes_pendentes_def)
qed

text \<open>
  As many calls of \<^verbatim>\<open>proxima_tarefa\<close> as there are pending tasks each return a task and
  leave none, by induction on the number of pending tasks.
\<close>

lemma esgotar:
  "chaves_distintas g \<Longrightarrow> total_estatisticas g = int n \<Longrightarrow>
     \<exists>rs g'. executar (replicate n Proxima) g = Inr (rs, g') \<and> length rs = n \<and>
       list_all retirada_com_sucesso rs \<and> total_estatisticas g' = 0"
proof (induction n arbitrary: g)
  case 0
  then show ?case by simp
next
  case (Suc n)
  have "classes_pendentes g \<noteq> []"
    using sem_pendentes_total_zero[OF Suc.prems(1)] Suc.prems(2) by auto
  from proxima_tarefa_menor_classe[OF this] obtain t g1 where
    p: "proxima_tarefa g = Inr (Some t, g1)" by blast
  have d1: "chaves_distintas g1" using proxima_tarefa_distintas[OF p Suc.prems(1)] .
  have t1: "total_estatisticas g1 = int n"
    using proxima_tarefa_total[OF p] Suc.prems(2) by simp
  from Suc.IH[OF d1 t1] obtain rs g' where
    "executar (replicate n Proxima) g1 = Inr (rs, g')" "length rs = n"
    "list_all retirada_com_sucesso rs" "total_estatisticas g' = 0" by blast
  with p show ?case by simp
qed

section \<open>The claims\<close>

subsection \<open>C1: strict order across classes\<close>

text \<open>
  C1. In a manager with a pending task, \<^verbatim>\<open>proxima_tarefa\<close> takes the head of the queue of
  the numerically smallest pending class: it returns that task and removes it from that
  queue. No pending class is smaller than the class served, and the queue of every class
  above a pending class is left as it was. So a low-priority task, submitted before or
  after, stays pending while a task of a higher priority (a smaller number) is pending,
  and the higher one is returned first. In a manager whose queues hold tasks of their own
  class, the priority of the returned task is the class served.
\<close>

theorem proxima_tarefa_ordem_estrita:
  assumes "classes_pendentes g \<noteq> []"
  shows "\<exists>fila g'.
      map_of (filas_prioridades g) (Min (set (classes_pendentes g))) = Some fila \<and>
      tarefas fila \<noteq> [] \<and>
      proxima_tarefa g = Inr (Some (hd (tarefas fila)), g') \<and>
      g' = g\<lparr>filas_prioridades :=
               AList.update (Min (set (classes_pendentes g)))
                 (fila\<lparr>tarefas := tl (tarefas fila)\<rparr>) (filas_prioridades g)\<rparr> \<and>
      (\<forall>kh\<in>set (classes_pendentes g). Min (set (classes_pendentes g)) \<le> kh \<and>
         (\<forall>kl. kh < kl \<longrightarrow> fila_da_classe g' kl = fila_da_classe g kl)) \<and>
      (roteado g \<longrightarrow> prioridade (hd (tarefas fila)) = Min (set (classes_pendentes g)))"
proof -
  let ?k = "Min (set (classes_pendentes g))"
  from proxima_tarefa_menor_classe[OF assms] obtain fila where
    m: "map_of (filas_prioridades g) ?k = Some fila" and ne: "tarefas fila \<noteq> []"
    and p: "proxima_tarefa g =
           Inr (Some (hd (tarefas fila)),
                g\<lparr>filas_prioridades :=
                     AList.update ?k (fila\<lparr>tarefas := tl (tarefas fila)\<rparr>) (filas_prioridades g)\<rparr>)"
    by blast
  let ?g' = "g\<lparr>filas_prioridades :=
                AList.update ?k (fila\<lparr>tarefas := tl (tarefas fila)\<rparr>) (filas_prioridades g)\<rparr>"
  have le: "\<forall>kh\<in>set (classes_pendentes g). ?k \<le> kh" by simp
  have frame: "\<forall>kh\<in>set (classes_pendentes g). ?k \<le> kh \<and>
     (\<forall>kl. kh < kl \<longrightarrow> fila_da_classe ?g' kl = fila_da_classe g kl)"
  proof (intro ballI conjI allI impI)
    fix kh assume "kh \<in> set (classes_pendentes g)"
    then show "?k \<le> kh" by simp
  next
    fix kh kl assume "kh \<in> set (classes_pendentes g)" and "kh < kl"
    with le have "kl \<noteq> ?k" by fastforce
    then show "fila_da_classe ?g' kl = fila_da_classe g kl"
      by (simp add: fila_da_classe_update)
  qed
  have rot: "roteado g \<longrightarrow> prioridade (hd (tarefas fila)) = ?k"
    using roteado_map_of[OF _ m] ne by auto
  from m ne p frame rot show ?thesis by blast
qed

text \<open>
  The scenario of the claim on the manager of the constructor: the low-priority task
  \<open>L\<close> is submitted first, the high-priority task \<open>H\<close> second, and the next call returns
  \<open>H\<close> and leaves \<open>L\<close> pending.
\<close>

theorem proxima_tarefa_ordem_estrita_witness:
  "executar
     [Adicionar \<lparr>nome = ''L'', descricao = ''low'', prioridade = 3\<rparr>,
      Adicionar \<lparr>nome = ''H'', descricao = ''high'', prioridade = 1\<rparr>]
     GerenciadorTarefas_init =
     Inr ([Adicionada True, Adicionada True],
       \<lparr>filas_prioridades =
          [(1, \<lparr>tarefas = [\<lparr>nome = ''H'', descricao = ''high'', prioridade = 1\<rparr>]\<rparr>),
           (2, \<lparr>tarefas = []\<rparr>),
           (3, \<lparr>tarefas = [\<lparr>nome = ''L'', descricao = ''low'', prioridade = 3\<rparr>]\<rparr>)]\<rparr>)
   \<and> classes_pendentes
       \<lparr>filas_prioridades =
          [(1, \<lparr>tarefas = [\<lparr>nome = ''H'', descricao = ''high'', prioridade = 1\<rparr>]\<rparr>),
           (2, \<lparr>tarefas = []\<rparr>),
           (3, \<lparr>tarefas = [\<lparr>nome = ''L'', descricao = ''low'', prioridade = 3\<rparr>]\<rparr>)]\<rparr> = [1, 3]
   \<and> proxima_tarefa
       \<lparr>filas_prioridades =
          [(1, \<lparr>tarefas = [\<lparr>nome = ''H'', descricao = ''high'', prioridade = 1\<rparr>]\<rparr>),
           (2, \<lparr>tarefas = []\<rparr>),
           (3, \<lparr>tarefas = [\<lparr>nome = ''L'', descricao = ''low'', prioridade = 3\<rparr>]\<rparr>)]\<rparr> =
       Inr (Some \<lparr>nome = ''H'', descricao = ''high'', prioridade = 1\<rparr>,
         \<lparr>filas_prioridades =
            [(1, \<lparr>tarefas = []\<rparr>),
             (2, \<lparr>tarefas = []\<rparr>),
             (3, \<lparr>tarefas = [\<lparr>nome = ''L'', descricao = ''low'', prioridade = 3\<rparr>]\<rparr>)]\<rparr>)"
proof -
  let ?g = "\<lparr>filas_prioridades =
        [(1, \<lparr>tarefas = [\<lparr>nome = ''H'', descricao = ''high'', prioridade = 1\<rparr>]\<rparr>),
         (2, \<lparr>tarefas = []\<rparr>),
         (3, \<lparr>tarefas = [\<lparr>nome = ''L'', descricao = ''low'', prioridade = 3\<rparr>]\<rparr>)]\<rparr>"
  have p: "classes_pendentes ?g = [1, 3]"
    by (simp add: classes_pendentes_def classes_def fila_da_classe_def)
  then have ne: "classes_pendentes ?g \<noteq> []" by simp
  have k: "Min (set (classes_pendentes ?g)) = 1" by (simp add: p)
  from proxima_tarefa_ordem_estrita[OF ne] obtain fila g' where
    "map_of (filas_prioridades ?g) (Min (set (classes_pendentes ?g))) = Some fila"
    and "proxima_tarefa ?g = Inr (Some (hd (tarefas fila)), g')"
    and "g' = ?g\<lparr>filas_prioridades :=
               AList.update (Min (set (classes_pendentes ?g)))
                 (fila\<lparr>tarefas := tl (tarefas fila)\<rparr>) (filas_prioridades ?g)\<rparr>"
    by blast
  then have "proxima_tarefa ?g =
       Inr (Some \<lparr>nome = ''H'', descricao = ''high'', prioridade = 1\<rparr>,
         \<lparr>filas_prioridades =
        [(1, \<lparr>tarefas = []\<rparr>),
         (2, \<lparr>tarefas = []\<rparr>),
         (3, \<lparr>tarefas = [\<lparr>nome = ''L'', descricao = ''low'', prioridade = 3\<rparr>]\<rparr>)]\<rparr>)"
    by (auto simp: k)
  moreover have "executar
       [Adicionar \<lparr>nome = ''L'', descricao = ''low'', prioridade = 3\<rparr>,
        Adicionar \<lparr>nome = ''H'', descricao = ''high'', prioridade = 1\<rparr>]
       GerenciadorTarefas_init = Inr ([Adicionada True, Adicionada True], ?g)"
    by (simp add: GerenciadorTarefas_init_def FilaTarefas_init_def adicionar_tarefa_def
        adicionar_def)
  ultimately show ?thesis using p by simp
qed

subsection \<open>C2: first in, first out within a class\<close>

text \<open>
  C2. Let a task \<open>a\<close> and later a task \<open>b\<close> be submitted with the same recognized class
  \<open>k\<close>, anywhere in a sequence of calls run on a manager whose queues hold tasks of their
  own class. The tasks of class \<open>k\<close> that \<^verbatim>\<open>proxima_tarefa\<close> returned during the run, in
  the order of the calls, followed by the tasks of class \<open>k\<close> still pending, are the tasks
  of class \<open>k\<close> in their order of arrival: those pending before the run and submitted
  before \<open>a\<close>, then \<open>a\<close>, those submitted between the two, then \<open>b\<close>, and those submitted
  after. So when the run has returned the task at the place of \<open>b\<close>, it returned \<open>a\<close> at
  its own, strictly earlier, place.
\<close>

theorem fifo_na_classe:
  assumes "roteado g" and "k \<in> set (classes g)"
    and "prioridade a = k" and "prioridade b = k"
    and "executar (cs1 @ Adicionar a # cs2 @ Adicionar b # cs3) g = Inr (rs, g')"
  shows "da_classe k (retiradas rs) @ fila_da_classe g' k =
           (fila_da_classe g k @ da_classe k (submetidas cs1)) @ a #
             da_classe k (submetidas cs2) @ b # da_classe k (submetidas cs3)
       \<and> (length (fila_da_classe g k @ da_classe k (submetidas cs1)) + 1
              + length (da_classe k (submetidas cs2)) < length (da_classe k (retiradas rs)) \<longrightarrow>
           da_classe k (retiradas rs) !
             length (fila_da_classe g k @ da_classe k (submetidas cs1)) = a \<and>
           da_classe k (retiradas rs) !
             (length (fila_da_classe g k @ da_classe k (submetidas cs1)) + 1
                + length (da_classe k (submetidas cs2))) = b)"
proof -
  let ?X = "fila_da_classe g k @ da_classe k (submetidas cs1)"
  let ?Y = "da_classe k (submetidas cs2)"
  let ?Z = "da_classe k (submetidas cs3)"
  let ?R = "da_classe k (retiradas rs)"
  have "?R @ fila_da_classe g' k =
          fila_da_classe g k @ da_classe k (submetidas (cs1 @ Adicionar a # cs2 @ Adicionar b # cs3))"
    using executar_historia[OF assms(5,1,2)] .
  also have "\<dots> = ?X @ a # ?Y @ b # ?Z"
    using assms(3,4) by (simp add: submetidas_append da_classe_def)
  finally have eq: "?R @ fila_da_classe g' k = ?X @ a # ?Y @ b # ?Z" .
  have "length ?X + 1 + length ?Y < length ?R \<longrightarrow>
           ?R ! length ?X = a \<and> ?R ! (length ?X + 1 + length ?Y) = b"
  proof
    assume lt: "length ?X + 1 + length ?Y < length ?R"
    have "?R ! length ?X = (?R @ fila_da_classe g' k) ! length ?X"
      using lt by (simp add: nth_append)
    also have "\<dots> = a" unfolding eq by (simp add: nth_append)
    finally have 1: "?R ! length ?X = a" .
    have "?R ! (length ?X + 1 + length ?Y) = (?R @ fila_da_classe g' k) ! (length ?X + 1 + length ?Y)"
      using lt by (simp add: nth_append)
    also have "\<dots> = b" unfolding eq by (simp add: nth_append)
    finally have 2: "?R ! (length ?X + 1 + length ?Y) = b" .
    from 1 2 show "?R ! length ?X = a \<and> ?R ! (length ?X + 1 + length ?Y) = b" ..
  qed
  with eq show ?thesis by blast
qed

text \<open>
  On the manager of the constructor: \<open>A\<close> and \<open>C\<close> of class 1 with \<open>B\<close> of class 2
  submitted between them, then three calls of \<^verbatim>\<open>proxima_tarefa\<close>. Among the returned tasks
  of class 1, \<open>A\<close> is at index 0 and \<open>C\<close> at index 1.
\<close>

theorem fifo_na_classe_witness:
  "roteado GerenciadorTarefas_init
   \<and> 1 \<in> set (classes GerenciadorTarefas_init)
   \<and> executar
       ([] @ Adicionar \<lparr>nome = ''A'', descricao = ''a'', prioridade = 1\<rparr> #
          [Adicionar \<lparr>nome = ''B'', descricao = ''b'', prioridade = 2\<rparr>] @
          Adicionar \<lparr>nome = ''C'', descricao = ''c'', prioridade = 1\<rparr> #
          [Proxima, Proxima, Proxima]) GerenciadorTarefas_init =
       Inr ([Adicionada True, Adicionada True, Adicionada True,
             Retirada (Some \<lparr>nome = ''A'', descricao = ''a'', prioridade = 1\<rparr>),
             Retirada (Some \<lparr>nome = ''C'', descricao = ''c'', prioridade = 1\<rparr>),
             Retirada (Some \<lparr>nome = ''B'', descricao = ''b'', prioridade = 2\<rparr>)],
            GerenciadorTarefas_init)
   \<and> da_classe 1 (retiradas
         [Adicionada True, Adicionada True, Adicionada True,
          Retirada (Some \<lparr>nome = ''A'', descricao = ''a'', prioridade = 1\<rparr>),
          Retirada (Some \<lparr>nome = ''C'', descricao = ''c'', prioridade = 1\<rparr>),
          Retirada (Some \<lparr>nome = ''B'', descricao = ''b'', prioridade = 2\<rparr>)]) ! 0 =
       \<lparr>nome = ''A'', descricao = ''a'', prioridade = 1\<rparr>
   \<and> da_classe 1 (retiradas
         [Adicionada True, Adicionada True, Adicionada True,
          Retirada (Some \<lparr>nome = ''A'', descricao = ''a'', prioridade = 1\<rparr>),
          Retirada (Some \<lparr>nome = ''C'', descricao = ''c'', prioridade = 1\<rparr>),
          Retirada (Some \<lparr>nome = ''B'', descricao = ''b'', prioridade = 2\<rparr>)]) ! 1 =
       \<lparr>nome = ''C'', descricao = ''c'', prioridade = 1\<rparr>"
proof -
  let ?A = "\<lparr>nome = ''A'', descricao = ''a'', prioridade = 1\<rparr>"
  let ?B = "\<lparr>nome = ''B'', descricao = ''b'', prioridade = 2\<rparr>"
  let ?C = "\<lparr>nome = ''C'', descricao = ''c'', prioridade = 1\<rparr>"
  let ?rs = "[Adicionada True, Adicionada True, Adicionada True,
              Retirada (Some ?A), Retirada (Some ?C), Retirada (Some ?B)]"
  have r: "roteado GerenciadorTarefas_init" by (rule GerenciadorTarefas_init_roteado)
  have k: "1 \<in> set (classes GerenciadorTarefas_init)"
    by (simp add: GerenciadorTarefas_init_classes)
  have e: "executar ([] @ Adicionar ?A # [Adicionar ?B] @ Adicionar ?C # [Proxima, Proxima, Proxima])
             GerenciadorTarefas_init = Inr (?rs, GerenciadorTarefas_init)"
    by (simp add: GerenciadorTarefas_init_def FilaTarefas_init_def adicionar_tarefa_def
        adicionar_def proxima_tarefa_def remover_def esta_vazia_def)
  have pa: "prioridade ?A = 1" and pc: "prioridade ?C = 1" by simp_all
  have len: "length (fila_da_classe GerenciadorTarefas_init 1 @ da_classe 1 (submetidas [])) + 1
              + length (da_classe 1 (submetidas [Adicionar ?B])) < length (da_classe 1 (retiradas ?rs))"
    by (simp add: fila_da_classe_def GerenciadorTarefas_init_def FilaTarefas_init_def da_classe_def)
  from fifo_na_classe[OF r k pa pc e] len
  have "da_classe 1 (retiradas ?rs) !
             length (fila_da_classe GerenciadorTarefas_init 1 @ da_classe 1 (submetidas [])) = ?A"
    and "da_classe 1 (retiradas ?rs) !
             (length (fila_da_classe GerenciadorTarefas_init 1 @ da_classe 1 (submetidas [])) + 1
                + length (da_classe 1 (submetidas [Adicionar ?B]))) = ?C"
    by blast+
  then have "da_classe 1 (retiradas ?rs) ! 0 = ?A" and "da_classe 1 (retiradas ?rs) ! 1 = ?C"
    by (simp_all add: fila_da_classe_def GerenciadorTarefas_init_def FilaTarefas_init_def da_classe_def)
  with r k e show ?thesis by blast
qed

subsection \<open>C3: the example trace\<close>

text \<open>
  C3. On the manager of the constructor, whose classes are 1, 2 and 3, the tasks \<open>A\<close> of
  class 1, \<open>B\<close> of class 2 and \<open>C\<close> of class 1 are submitted in this order, with any
  descriptions, and accepted. Three calls of \<^verbatim>\<open>proxima_tarefa\<close> then return \<open>A\<close>, \<open>C\<close> and
  \<open>B\<close>, and on the manager they leave \<^verbatim>\<open>estatisticas\<close> reports the total 0 and the count
  0 for each of the three classes.
\<close>

theorem exemplo_de_execucao:
  "\<exists>g'.
     executar
       [Adicionar \<lparr>nome = ''A'', descricao = da, prioridade = 1\<rparr>,
        Adicionar \<lparr>nome = ''B'', descricao = db, prioridade = 2\<rparr>,
        Adicionar \<lparr>nome = ''C'', descricao = dc, prioridade = 1\<rparr>,
        Proxima, Proxima, Proxima] GerenciadorTarefas_init =
     Inr ([Adicionada True, Adicionada True, Adicionada True,
           Retirada (Some \<lparr>nome = ''A'', descricao = da, prioridade = 1\<rparr>),
           Retirada (Some \<lparr>nome = ''C'', descricao = dc, prioridade = 1\<rparr>),
           Retirada (Some \<lparr>nome = ''B'', descricao = db, prioridade = 2\<rparr>)],
          g')
     \<and> estatisticas g' =
         (\<lparr>total_tarefas = 0, por_prioridade = [(1, 0), (2, 0), (3, 0)]\<rparr>, g')"
  by (simp add: GerenciadorTarefas_init_def FilaTarefas_init_def adicionar_tarefa_def
      adicionar_def proxima_tarefa_def remover_def esta_vazia_def estatisticas_def tamanho_def)

theorem exemplo_de_execucao_witness:
  "\<exists>g'.
     executar
       [Adicionar \<lparr>nome = ''A'', descricao = ''fix the login'', prioridade = 1\<rparr>,
        Adicionar \<lparr>nome = ''B'', descricao = ''update the docs'', prioridade = 2\<rparr>,
        Adicionar \<lparr>nome = ''C'', descricao = ''tune the query'', prioridade = 1\<rparr>,
        Proxima, Proxima, Proxima] GerenciadorTarefas_init =
     Inr ([Adicionada True, Adicionada True, Adicionada True,
           Retirada (Some \<lparr>nome = ''A'', descricao = ''fix the login'', prioridade = 1\<rparr>),
           Retirada (Some \<lparr>nome = ''C'', descricao = ''tune the query'', prioridade = 1\<rparr>),
           Retirada (Some \<lparr>nome = ''B'', descricao = ''update the docs'', prioridade = 2\<rparr>)],
          g')
     \<and> estatisticas g' =
         (\<lparr>total_tarefas = 0, por_prioridade = [(1, 0), (2, 0), (3, 0)]\<rparr>, g')"
  by (rule exemplo_de_execucao)

subsection \<open>C4: a priority that is no recognized class\<close>

text \<open>
  C4. Submitting a task whose priority is not a key of the dictionary returns \<^verbatim>\<open>False\<close>
  and the manager as it was: no queue has changed, so the task is stored nowhere and the
  total of \<^verbatim>\<open>estatisticas\<close> is the one from before. The call raises nothing, and
  whatever calls follow run to their end exactly as they would have run without the
  rejected submission.
\<close>

theorem adicionar_tarefa_classe_invalida:
  assumes "prioridade t \<notin> set (classes g)"
  shows "\<exists>g'. adicionar_tarefa g t = Inr (False, g') \<and> g' = g \<and>
           filas_prioridades g' = filas_prioridades g \<and>
           total_tarefas (fst (estatisticas g')) = total_tarefas (fst (estatisticas g)) \<and>
           (\<exists>rs g''. executar cs g = Inr (rs, g'') \<and>
              executar (Adicionar t # cs) g = Inr (Adicionada False # rs, g''))"
proof -
  have a: "adicionar_tarefa g t = Inr (False, g)"
    using assms by (rule adicionar_tarefa_invalida)
  obtain rs g'' where e: "executar cs g = Inr (rs, g'')"
    using executar_retorna by blast
  have "executar (Adicionar t # cs) g = Inr (Adicionada False # rs, g'')"
    by (simp add: a e)
  with a e show ?thesis by blast
qed

text \<open>The priority 99 on the manager of the constructor, followed by a valid submission.\<close>

theorem adicionar_tarefa_classe_invalida_witness:
  "prioridade \<lparr>nome = ''X'', descricao = ''x'', prioridade = 99\<rparr>
     \<notin> set (classes GerenciadorTarefas_init)
   \<and> adicionar_tarefa GerenciadorTarefas_init \<lparr>nome = ''X'', descricao = ''x'', prioridade = 99\<rparr>
       = Inr (False, GerenciadorTarefas_init)
   \<and> (\<exists>rs g''.
         executar [Adicionar \<lparr>nome = ''Y'', descricao = ''y'', prioridade = 2\<rparr>]
           GerenciadorTarefas_init = Inr (rs, g'') \<and>
         executar [Adicionar \<lparr>nome = ''X'', descricao = ''x'', prioridade = 99\<rparr>,
                   Adicionar \<lparr>nome = ''Y'', descricao = ''y'', prioridade = 2\<rparr>]
           GerenciadorTarefas_init = Inr (Adicionada False # rs, g''))"
proof -
  have h: "prioridade \<lparr>nome = ''X'', descricao = ''x'', prioridade = 99\<rparr>
             \<notin> set (classes GerenciadorTarefas_init)"
    by (simp add: GerenciadorTarefas_init_classes)
  from adicionar_tarefa_classe_invalida[OF h,
      of "[Adicionar \<lparr>nome = ''Y'', descricao = ''y'', prioridade = 2\<rparr>]"] h
  show ?thesis by blast
qed

subsection \<open>C5: conservation of the total\<close>

text \<open>
  C5. Whatever sequence of submissions and calls of \<^verbatim>\<open>proxima_tarefa\<close> is run on the
  manager of the constructor, the run raises nothing, and afterwards the total of
  \<^verbatim>\<open>estatisticas\<close> is the number of submissions that returned \<^verbatim>\<open>True\<close> minus the number of
  calls of \<^verbatim>\<open>proxima_tarefa\<close> that returned a task. (From any other manager the total changes
  by this difference: lemma \<open>executar_total\<close>.)
\<close>

theorem conservacao_do_total:
  "\<exists>rs g'. executar cs GerenciadorTarefas_init = Inr (rs, g') \<and>
     total_tarefas (fst (estatisticas g')) =
       int (length (filter adicionada_com_sucesso rs))
         - int (length (filter retirada_com_sucesso rs))"
proof -
  obtain rs g' where e: "executar cs GerenciadorTarefas_init = Inr (rs, g')"
    using executar_retorna by blast
  from executar_total[OF e] GerenciadorTarefas_init_total e show ?thesis
    by (simp add: total_estatisticas_def)
qed

text \<open>
  Two accepted submissions, one rejected, and three calls of \<^verbatim>\<open>proxima_tarefa\<close> of which the
  last finds nothing: the total is \<open>2 - 2\<close>.
\<close>

theorem conservacao_do_total_witness:
  "\<exists>rs g'.
     executar
       [Adicionar \<lparr>nome = ''A'', descricao = ''a'', prioridade = 3\<rparr>,
        Adicionar \<lparr>nome = ''X'', descricao = ''x'', prioridade = 99\<rparr>,
        Proxima,
        Adicionar \<lparr>nome = ''B'', descricao = ''b'', prioridade = 1\<rparr>,
        Proxima, Proxima] GerenciadorTarefas_init = Inr (rs, g') \<and>
     rs = [Adicionada True, Adicionada False,
           Retirada (Some \<lparr>nome = ''A'', descricao = ''a'', prioridade = 3\<rparr>),
           Adicionada True,
           Retirada (Some \<lparr>nome = ''B'', descricao = ''b'', prioridade = 1\<rparr>),
           Retirada None] \<and>
     total_tarefas (fst (estatisticas g')) = 2 - 2"
proof -
  let ?cs = "[Adicionar \<lparr>nome = ''A'', descricao = ''a'', prioridade = 3\<rparr>,
        Adicionar \<lparr>nome = ''X'', descricao = ''x'', prioridade = 99\<rparr>,
        Proxima,
        Adicionar \<lparr>nome = ''B'', descricao = ''b'', prioridade = 1\<rparr>,
        Proxima, Proxima]"
  from conservacao_do_total[of ?cs] obtain rs g' where
    e: "executar ?cs GerenciadorTarefas_init = Inr (rs, g')"
    and t: "total_tarefas (fst (estatisticas g')) =
       int (length (filter adicionada_com_sucesso rs))
         - int (length (filter retirada_com_sucesso rs))" by blast
  have "executar ?cs GerenciadorTarefas_init =
     Inr ([Adicionada True, Adicionada False,
           Retirada (Some \<lparr>nome = ''A'', descricao = ''a'', prioridade = 3\<rparr>),
           Adicionada True,
           Retirada (Some \<lparr>nome = ''B'', descricao = ''b'', prioridade = 1\<rparr>),
           Retirada None], GerenciadorTarefas_init)"
    by (simp add: GerenciadorTarefas_init_def FilaTarefas_init_def adicionar_tarefa_def
        adicionar_def proxima_tarefa_def remover_def esta_vazia_def)
  with e have rs: "rs = [Adicionada True, Adicionada False,
           Retirada (Some \<lparr>nome = ''A'', descricao = ''a'', prioridade = 3\<rparr>),
           Adicionada True,
           Retirada (Some \<lparr>nome = ''B'', descricao = ''b'', prioridade = 1\<rparr>),
           Retirada None]" by simp
  from t have "total_tarefas (fst (estatisticas g')) = 2 - 2" by (simp add: rs)
  with e rs show ?thesis by blast
qed

subsection \<open>C6: the statistics\<close>

text \<open>
  C6. \<^verbatim>\<open>estatisticas\<close> leaves the manager as it is and is computed from it alone. Its total
  is the sum, over the recognized classes, of the number of pending tasks of the class. Its
  inner dictionary has the recognized classes as its keys, in the manager's order and each
  once, and maps each class to the number of its pending tasks, zero included.
\<close>

theorem estatisticas_corretas:
  assumes "chaves_distintas g"
  shows "\<exists>s. estatisticas g = (s, g) \<and>
     total_tarefas s = (\<Sum>k\<in>set (classes g). int (length (fila_da_classe g k))) \<and>
     map fst (por_prioridade s) = classes g \<and>
     distinct (map fst (por_prioridade s)) \<and>
     (\<forall>k\<in>set (classes g).
        map_of (por_prioridade s) k = Some (int (length (fila_da_classe g k))))"
proof -
  let ?s = "fst (estatisticas g)"
  have 1: "estatisticas g = (?s, g)" by (simp add: estatisticas_def)
  have 2: "total_tarefas ?s = (\<Sum>k\<in>set (classes g). int (length (fila_da_classe g k)))"
    using total_distintas[OF assms] by (simp add: total_estatisticas_def)
  have 3: "map fst (por_prioridade ?s) = classes g"
    by (simp add: estatisticas_def classes_def comp_def case_prod_unfold)
  have 4: "distinct (map fst (por_prioridade ?s))"
    using assms unfolding 3 by (simp add: chaves_distintas_def classes_def)
  have 5: "\<forall>k\<in>set (classes g).
             map_of (por_prioridade ?s) k = Some (int (length (fila_da_classe g k)))"
  proof
    fix k assume "k \<in> set (classes g)"
    then obtain fila where "map_of (filas_prioridades g) k = Some fila"
      using map_of_chave[of k "filas_prioridades g"] by (auto simp: classes_def)
    moreover have "map_of (por_prioridade ?s) k =
                     map_option tamanho (map_of (filas_prioridades g) k)"
      by (simp add: estatisticas_def por_prioridade_map_of)
    ultimately show "map_of (por_prioridade ?s) k = Some (int (length (fila_da_classe g k)))"
      by (simp add: fila_da_classe_def tamanho_def)
  qed
  from 1 2 3 4 5 show ?thesis by blast
qed

text \<open>A manager with two tasks of class 1, none of class 2 and one of class 3.\<close>

theorem estatisticas_corretas_witness:
  "chaves_distintas
     \<lparr>filas_prioridades =
        [(1, \<lparr>tarefas = [\<lparr>nome = ''A'', descricao = ''a'', prioridade = 1\<rparr>,
                         \<lparr>nome = ''C'', descricao = ''c'', prioridade = 1\<rparr>]\<rparr>),
         (2, \<lparr>tarefas = []\<rparr>),
         (3, \<lparr>tarefas = [\<lparr>nome = ''L'', descricao = ''l'', prioridade = 3\<rparr>]\<rparr>)]\<rparr>
   \<and> (\<exists>s. fst (estatisticas
         \<lparr>filas_prioridades =
            [(1, \<lparr>tarefas = [\<lparr>nome = ''A'', descricao = ''a'', prioridade = 1\<rparr>,
                             \<lparr>nome = ''C'', descricao = ''c'', prioridade = 1\<rparr>]\<rparr>),
             (2, \<lparr>tarefas = []\<rparr>),
             (3, \<lparr>tarefas = [\<lparr>nome = ''L'', descricao = ''l'', prioridade = 3\<rparr>]\<rparr>)]\<rparr>) = s
        \<and> total_tarefas s = 3
        \<and> map fst (por_prioridade s) = [1, 2, 3]
        \<and> map_of (por_prioridade s) 1 = Some 2
        \<and> map_of (por_prioridade s) 2 = Some 0
        \<and> map_of (por_prioridade s) 3 = Some 1)"
proof -
  let ?g = "\<lparr>filas_prioridades =
        [(1, \<lparr>tarefas = [\<lparr>nome = ''A'', descricao = ''a'', prioridade = 1\<rparr>,
                         \<lparr>nome = ''C'', descricao = ''c'', prioridade = 1\<rparr>]\<rparr>),
         (2, \<lparr>tarefas = []\<rparr>),
         (3, \<lparr>tarefas = [\<lparr>nome = ''L'', descricao = ''l'', prioridade = 3\<rparr>]\<rparr>)]\<rparr>"
  have d: "chaves_distintas ?g" by (simp add: chaves_distintas_def)
  have c: "classes ?g = [1, 2, 3]" by (simp add: classes_def)
  have f: "fila_da_classe ?g 1 = [\<lparr>nome = ''A'', descricao = ''a'', prioridade = 1\<rparr>,
                         \<lparr>nome = ''C'', descricao = ''c'', prioridade = 1\<rparr>]"
    "fila_da_classe ?g 2 = []"
    "fila_da_classe ?g 3 = [\<lparr>nome = ''L'', descricao = ''l'', prioridade = 3\<rparr>]"
    by (simp_all add: fila_da_classe_def)
  from estatisticas_corretas[OF d] obtain s where
    s: "estatisticas ?g = (s, ?g)"
    and t: "total_tarefas s = (\<Sum>k\<in>set (classes ?g). int (length (fila_da_classe ?g k)))"
    and k: "map fst (por_prioridade s) = classes ?g"
    and m: "\<forall>k\<in>set (classes ?g).
        map_of (por_prioridade s) k = Some (int (length (fila_da_classe ?g k)))"
    by blast
  have 1: "total_tarefas s = 3" using t by (simp add: c f)
  have 2: "map fst (por_prioridade s) = [1, 2, 3]" using k by (simp add: c)
  have 3: "map_of (por_prioridade s) 1 = Some 2" "map_of (por_prioridade s) 2 = Some 0"
    "map_of (por_prioridade s) 3 = Some 1"
    using m by (simp_all add: c f)
  have 4: "fst (estatisticas ?g) = s" by (simp only: s fst_conv)
  have "\<exists>s'. fst (estatisticas ?g) = s' \<and> total_tarefas s' = 3
        \<and> map fst (por_prioridade s') = [1, 2, 3]
        \<and> map_of (por_prioridade s') 1 = Some 2
        \<and> map_of (por_prioridade s') 2 = Some 0
        \<and> map_of (por_prioridade s') 3 = Some 1"
    by (rule exI[of _ s]) (simp only: 1 2 3 4 simp_thms)
  with d show ?thesis by (rule conjI)
qed

subsection \<open>C7: peeking\<close>

text \<open>
  C7. \<^verbatim>\<open>visualizar_proxima_tarefa\<close> raises nothing and leaves the manager, hence every queue
  and the statistics, as it was. A second call right after the first returns the same
  task, or \<^verbatim>\<open>None\<close> again. The task it returns is the one \<^verbatim>\<open>proxima_tarefa\<close> would return
  in the same manager: the head of the queue of the smallest pending class, and \<^verbatim>\<open>None\<close>
  when no class is pending.
\<close>

theorem visualizar_proxima_tarefa_pura:
  "\<exists>r g1 g2 g'.
     visualizar_proxima_tarefa g = Inr (r, g1) \<and> g1 = g \<and>
     visualizar_proxima_tarefa g1 = Inr (r, g2) \<and> g2 = g \<and>
     estatisticas g2 = estatisticas g \<and>
     proxima_tarefa g = Inr (r, g') \<and>
     r = (if classes_pendentes g = [] then None
          else Some (hd (fila_da_classe g (Min (set (classes_pendentes g))))))"
proof -
  obtain r g' where p: "proxima_tarefa g = Inr (r, g')" using proxima_tarefa_retorna by blast
  with visualizar_laco_proxima_laco[of "sort (map fst (filas_prioridades g))" g]
  have v: "visualizar_proxima_tarefa g = Inr (r, g)"
    by (auto simp: proxima_tarefa_def visualizar_proxima_tarefa_def)
  have "r = (if classes_pendentes g = [] then None
          else Some (hd (fila_da_classe g (Min (set (classes_pendentes g))))))"
  proof (cases "classes_pendentes g = []")
    case True
    with p proxima_tarefa_sem_pendentes[OF True] show ?thesis by simp
  next
    case False
    from proxima_tarefa_menor_classe[OF False] p False show ?thesis
      by (auto simp: fila_da_classe_def)
  qed
  with p v show ?thesis by blast
qed

text \<open>A manager where the task \<open>H\<close> of class 1 and the task \<open>L\<close> of class 3 are pending.\<close>

theorem visualizar_proxima_tarefa_pura_witness:
  "visualizar_proxima_tarefa
     \<lparr>filas_prioridades =
        [(1, \<lparr>tarefas = [\<lparr>nome = ''H'', descricao = ''high'', prioridade = 1\<rparr>]\<rparr>),
         (2, \<lparr>tarefas = []\<rparr>),
         (3, \<lparr>tarefas = [\<lparr>nome = ''L'', descricao = ''low'', prioridade = 3\<rparr>]\<rparr>)]\<rparr> =
     Inr (Some \<lparr>nome = ''H'', descricao = ''high'', prioridade = 1\<rparr>,
       \<lparr>filas_prioridades =
          [(1, \<lparr>tarefas = [\<lparr>nome = ''H'', descricao = ''high'', prioridade = 1\<rparr>]\<rparr>),
           (2, \<lparr>tarefas = []\<rparr>),
           (3, \<lparr>tarefas = [\<lparr>nome = ''L'', descricao = ''low'', prioridade = 3\<rparr>]\<rparr>)]\<rparr>)
   \<and> (\<exists>g'. proxima_tarefa
         \<lparr>filas_prioridades =
            [(1, \<lparr>tarefas = [\<lparr>nome = ''H'', descricao = ''high'', prioridade = 1\<rparr>]\<rparr>),
             (2, \<lparr>tarefas = []\<rparr>),
             (3, \<lparr>tarefas = [\<lparr>nome = ''L'', descricao = ''low'', prioridade = 3\<rparr>]\<rparr>)]\<rparr> =
         Inr (Some \<lparr>nome = ''H'', descricao = ''high'', prioridade = 1\<rparr>, g'))"
proof -
  let ?g = "\<lparr>filas_prioridades =
        [(1, \<lparr>tarefas = [\<lparr>nome = ''H'', descricao = ''high'', prioridade = 1\<rparr>]\<rparr>),
         (2, \<lparr>tarefas = []\<rparr>),
         (3, \<lparr>tarefas = [\<lparr>nome = ''L'', descricao = ''low'', prioridade = 3\<rparr>]\<rparr>)]\<rparr>"
  have p: "classes_pendentes ?g = [1, 3]"
    by (simp add: classes_pendentes_def classes_def fila_da_classe_def)
  from visualizar_proxima_tarefa_pura[of ?g] obtain r g' where
    v: "visualizar_proxima_tarefa ?g = Inr (r, ?g)"
    and n: "proxima_tarefa ?g = Inr (r, g')"
    and r: "r = (if classes_pendentes ?g = [] then None
          else Some (hd (fila_da_classe ?g (Min (set (classes_pendentes ?g))))))"
    by blast
  from r have r': "r = Some \<lparr>nome = ''H'', descricao = ''high'', prioridade = 1\<rparr>"
    by (simp add: p fila_da_classe_def)
  from v have 1: "visualizar_proxima_tarefa ?g =
      Inr (Some \<lparr>nome = ''H'', descricao = ''high'', prioridade = 1\<rparr>, ?g)"
    by (simp only: r')
  from n have "\<exists>g'. proxima_tarefa ?g =
      Inr (Some \<lparr>nome = ''H'', descricao = ''high'', prioridade = 1\<rparr>, g')"
    by (simp only: r') (rule exI, rule refl)
  with 1 show ?thesis by (rule conjI)
qed

subsection \<open>C8: exhaustion\<close>

text \<open>
  C8. In any manager (a dictionary: its keys are distinct), as many calls of
  \<^verbatim>\<open>proxima_tarefa\<close> as \<^verbatim>\<open>estatisticas\<close> counts pending tasks each return a task and raise
  nothing. After them one more call returns \<^verbatim>\<open>None\<close>, a value and not an exception,
  leaves the manager as it is, and the total of \<^verbatim>\<open>estatisticas\<close> is 0.
\<close>

theorem esgotamento:
  assumes "chaves_distintas g"
  shows "\<exists>rs g'.
     executar (replicate (nat (total_tarefas (fst (estatisticas g)))) Proxima) g = Inr (rs, g') \<and>
     length rs = nat (total_tarefas (fst (estatisticas g))) \<and>
     list_all retirada_com_sucesso rs \<and>
     proxima_tarefa g' = Inr (None, g') \<and>
     total_tarefas (fst (estatisticas g')) = 0"
proof -
  have "total_estatisticas g = int (nat (total_estatisticas g))"
    using total_nao_negativo[of g] by simp
  from esgotar[OF assms this] obtain rs g' where
    1: "executar (replicate (nat (total_estatisticas g)) Proxima) g = Inr (rs, g')"
    and 2: "length rs = nat (total_estatisticas g)"
    and 3: "list_all retirada_com_sucesso rs" and 4: "total_estatisticas g' = 0" by blast
  have 5: "proxima_tarefa g' = Inr (None, g')"
    using proxima_tarefa_sem_pendentes[OF total_zero_sem_pendentes[OF 4]] .
  from 1 2 3 4 5 show ?thesis unfolding total_estatisticas_def by blast
qed

text \<open>
  A manager with the task \<open>H\<close> of class 1 and the task \<open>L\<close> of class 3: two calls return
  \<open>H\<close> and \<open>L\<close>, and the third finds nothing.
\<close>

theorem esgotamento_witness:
  "chaves_distintas
     \<lparr>filas_prioridades =
        [(1, \<lparr>tarefas = [\<lparr>nome = ''H'', descricao = ''high'', prioridade = 1\<rparr>]\<rparr>),
         (2, \<lparr>tarefas = []\<rparr>),
         (3, \<lparr>tarefas = [\<lparr>nome = ''L'', descricao = ''low'', prioridade = 3\<rparr>]\<rparr>)]\<rparr>
   \<and> (\<exists>rs g'.
        executar [Proxima, Proxima]
          \<lparr>filas_prioridades =
             [(1, \<lparr>tarefas = [\<lparr>nome = ''H'', descricao = ''high'', prioridade = 1\<rparr>]\<rparr>),
              (2, \<lparr>tarefas = []\<rparr>),
              (3, \<lparr>tarefas = [\<lparr>nome = ''L'', descricao = ''low'', prioridade = 3\<rparr>]\<rparr>)]\<rparr> =
          Inr (rs, g')
        \<and> rs = [Retirada (Some \<lparr>nome = ''H'', descricao = ''high'', prioridade = 1\<rparr>),
                Retirada (Some \<lparr>nome = ''L'', descricao = ''low'', prioridade = 3\<rparr>)]
        \<and> proxima_tarefa g' = Inr (None, g')
        \<and> total_tarefas (fst (estatisticas g')) = 0)"
proof -
  let ?g = "\<lparr>filas_prioridades =
        [(1, \<lparr>tarefas = [\<lparr>nome = ''H'', descricao = ''high'', prioridade = 1\<rparr>]\<rparr>),
         (2, \<lparr>tarefas = []\<rparr>),
         (3, \<lparr>tarefas = [\<lparr>nome = ''L'', descricao = ''low'', prioridade = 3\<rparr>]\<rparr>)]\<rparr>"
  have d: "chaves_distintas ?g" by (simp add: chaves_distintas_def)
  have n: "nat (total_tarefas (fst (estatisticas ?g))) = 2"
    by (simp add: estatisticas_def tamanho_def)
  have r: "replicate 2 Proxima = [Proxima, Proxima]" by (simp add: numeral_2_eq_2)
  from esgotamento[OF d] obtain rs g' where
    e: "executar (replicate (nat (total_tarefas (fst (estatisticas ?g)))) Proxima) ?g = Inr (rs, g')"
    and p: "proxima_tarefa g' = Inr (None, g')"
    and t: "total_tarefas (fst (estatisticas g')) = 0" by blast
  from e have e': "executar [Proxima, Proxima] ?g = Inr (rs, g')" by (simp only: n r)
  have "executar [Proxima, Proxima] ?g =
      Inr ([Retirada (Some \<lparr>nome = ''H'', descricao = ''high'', prioridade = 1\<rparr>),
            Retirada (Some \<lparr>nome = ''L'', descricao = ''low'', prioridade = 3\<rparr>)],
           \<lparr>filas_prioridades = [(1, \<lparr>tarefas = []\<rparr>), (2, \<lparr>tarefas = []\<rparr>), (3, \<lparr>tarefas = []\<rparr>)]\<rparr>)"
    by (simp add: proxima_tarefa_def remover_def esta_vazia_def)
  with e' have rs: "rs = [Retirada (Some \<lparr>nome = ''H'', descricao = ''high'', prioridade = 1\<rparr>),
                          Retirada (Some \<lparr>nome = ''L'', descricao = ''low'', prioridade = 3\<rparr>)]"
    by simp
  have "\<exists>rs g'. executar [Proxima, Proxima] ?g = Inr (rs, g')
        \<and> rs = [Retirada (Some \<lparr>nome = ''H'', descricao = ''high'', prioridade = 1\<rparr>),
                Retirada (Some \<lparr>nome = ''L'', descricao = ''low'', prioridade = 3\<rparr>)]
        \<and> proxima_tarefa g' = Inr (None, g')
        \<and> total_tarefas (fst (estatisticas g')) = 0"
    by (rule exI[of _ rs], rule exI[of _ g']) (simp only: e' rs[symmetric] p t simp_thms)
  with d show ?thesis by (rule conjI)
qed

subsection \<open>C9: the rendering of a task\<close>

text \<open>
  C9, as amended. The labels of the source are Portuguese, not the English ones of the
  claim: the rendering of a task is the heading \<^verbatim>\<open>Tarefa: \<close>, the name, and in parentheses
  after \<^verbatim>\<open>Prioridade: \<close> the label \<^verbatim>\<open>Alta\<close> for the priority 1, \<^verbatim>\<open>Media\<close> (with an acute
  accent on the e) for 2, \<^verbatim>\<open>Baixa\<close> for 3 and \<^verbatim>\<open>Desconhecida\<close> for any other priority;
  then, on a new line, the heading \<^verbatim>\<open>Descricao: \<close> (with cedilla and tilde) and the
  description.
\<close>

theorem Tarefa_str_rotulos:
  "Tarefa_str t =
     ''Tarefa: '' @ nome t @ '' (Prioridade: '' @
       (if prioridade t = 1 then ''Alta''
        else if prioridade t = 2 then ''M'' @ [CHR 0xC3, CHR 0xA9] @ ''dia''
        else if prioridade t = 3 then ''Baixa''
        else ''Desconhecida'') @ '')'' @ [CHR 0x0A] @
       ''Descri'' @ [CHR 0xC3, CHR 0xA7, CHR 0xC3, CHR 0xA3] @ ''o: '' @ descricao t"
  by (simp add: Tarefa_str_def prioridade_texto_def)

theorem Tarefa_str_rotulos_witness:
  "Tarefa_str \<lparr>nome = ''B'', descricao = ''docs'', prioridade = 2\<rparr> =
     ''Tarefa: B (Prioridade: M'' @ [CHR 0xC3, CHR 0xA9] @ ''dia)'' @ [CHR 0x0A] @
       ''Descri'' @ [CHR 0xC3, CHR 0xA7, CHR 0xC3, CHR 0xA3] @ ''o: docs''
   \<and> Tarefa_str \<lparr>nome = ''Z'', descricao = ''misc'', prioridade = 7\<rparr> =
     ''Tarefa: Z (Prioridade: Desconhecida)'' @ [CHR 0x0A] @
       ''Descri'' @ [CHR 0xC3, CHR 0xA7, CHR 0xC3, CHR 0xA3] @ ''o: misc''"
  using Tarefa_str_rotulos[of "\<lparr>nome = ''B'', descricao = ''docs'', prioridade = 2\<rparr>"]
    Tarefa_str_rotulos[of "\<lparr>nome = ''Z'', descricao = ''misc'', prioridade = 7\<rparr>"]
  by simp

text \<open>
  The claim as stated fails on a task of priority 1: its label is \<^verbatim>\<open>Alta\<close>, and the
  rendering does not hold the word \<^verbatim>\<open>High\<close>.
\<close>

theorem Tarefa_str_High_counterexample:
  "prioridade_texto 1 = ''Alta''
   \<and> prioridade_texto 1 \<noteq> ''High''
   \<and> Tarefa_str \<lparr>nome = ''A'', descricao = ''d'', prioridade = 1\<rparr> =
       ''Tarefa: A (Prioridade: Alta)'' @ [CHR 0x0A] @
         ''Descri'' @ [CHR 0xC3, CHR 0xA7, CHR 0xC3, CHR 0xA3] @ ''o: d''
   \<and> Tarefa_str \<lparr>nome = ''A'', descricao = ''d'', prioridade = 1\<rparr> \<noteq>
       ''Tarefa: A (Prioridade: High)'' @ [CHR 0x0A] @
         ''Descri'' @ [CHR 0xC3, CHR 0xA7, CHR 0xC3, CHR 0xA3] @ ''o: d''"
  by (simp add: Tarefa_str_def prioridade_texto_def)

subsection \<open>C10: what a submission changes\<close>

text \<open>
  C10. Submitting a task whose priority is a recognized class returns \<^verbatim>\<open>True\<close>. Afterwards
  the pending tasks of that class are the ones from before followed by the task, the queue
  of every other class is the one from before, and the recognized classes and their order
  are the same.
\<close>

theorem adicionar_tarefa_moldura:
  assumes "prioridade t \<in> set (classes g)"
  shows "\<exists>g'. adicionar_tarefa g t = Inr (True, g') \<and>
     fila_da_classe g' (prioridade t) = fila_da_classe g (prioridade t) @ [t] \<and>
     (\<forall>k. k \<noteq> prioridade t \<longrightarrow>
        map_of (filas_prioridades g') k = map_of (filas_prioridades g) k) \<and>
     classes g' = classes g"
proof -
  from adicionar_tarefa_valida[OF assms] obtain fila where
    m: "map_of (filas_prioridades g) (prioridade t) = Some fila"
    and a: "adicionar_tarefa g t =
             Inr (True, g\<lparr>filas_prioridades :=
                            AList.update (prioridade t) (fila\<lparr>tarefas := tarefas fila @ [t]\<rparr>)
                              (filas_prioridades g)\<rparr>)" by blast
  let ?g' = "g\<lparr>filas_prioridades :=
                            AList.update (prioridade t) (fila\<lparr>tarefas := tarefas fila @ [t]\<rparr>)
                              (filas_prioridades g)\<rparr>"
  have 1: "fila_da_classe ?g' (prioridade t) = fila_da_classe g (prioridade t) @ [t]"
    using m by (simp add: fila_da_classe_def AList.update_conv')
  have 2: "\<forall>k. k \<noteq> prioridade t \<longrightarrow>
        map_of (filas_prioridades ?g') k = map_of (filas_prioridades g) k"
    by (simp add: AList.update_conv')
  have 3: "classes ?g' = classes g" using assms by (rule classes_update)
  from a 1 2 3 show ?thesis by blast
qed

text \<open>
  A task of class 2 submitted to a manager with one task pending in each of the classes 1
  and 2: it goes behind the task of class 2.
\<close>

theorem adicionar_tarefa_moldura_witness:
  "prioridade \<lparr>nome = ''N'', descricao = ''new'', prioridade = 2\<rparr> \<in>
     set (classes
       \<lparr>filas_prioridades =
          [(1, \<lparr>tarefas = [\<lparr>nome = ''H'', descricao = ''high'', prioridade = 1\<rparr>]\<rparr>),
           (2, \<lparr>tarefas = [\<lparr>nome = ''M'', descricao = ''mid'', prioridade = 2\<rparr>]\<rparr>),
           (3, \<lparr>tarefas = []\<rparr>)]\<rparr>)
   \<and> (\<exists>g'.
        adicionar_tarefa
          \<lparr>filas_prioridades =
             [(1, \<lparr>tarefas = [\<lparr>nome = ''H'', descricao = ''high'', prioridade = 1\<rparr>]\<rparr>),
              (2, \<lparr>tarefas = [\<lparr>nome = ''M'', descricao = ''mid'', prioridade = 2\<rparr>]\<rparr>),
              (3, \<lparr>tarefas = []\<rparr>)]\<rparr>
          \<lparr>nome = ''N'', descricao = ''new'', prioridade = 2\<rparr> = Inr (True, g')
        \<and> fila_da_classe g' 2 =
            [\<lparr>nome = ''M'', descricao = ''mid'', prioridade = 2\<rparr>,
             \<lparr>nome = ''N'', descricao = ''new'', prioridade = 2\<rparr>]
        \<and> map_of (filas_prioridades g') 1 =
            Some \<lparr>tarefas = [\<lparr>nome = ''H'', descricao = ''high'', prioridade = 1\<rparr>]\<rparr>
        \<and> map_of (filas_prioridades g') 3 = Some \<lparr>tarefas = []\<rparr>
        \<and> classes g' = [1, 2, 3])"
proof -
  let ?g = "\<lparr>filas_prioridades =
          [(1, \<lparr>tarefas = [\<lparr>nome = ''H'', descricao = ''high'', prioridade = 1\<rparr>]\<rparr>),
           (2, \<lparr>tarefas = [\<lparr>nome = ''M'', descricao = ''mid'', prioridade = 2\<rparr>]\<rparr>),
           (3, \<lparr>tarefas = []\<rparr>)]\<rparr>"
  let ?t = "\<lparr>nome = ''N'', descricao = ''new'', prioridade = 2\<rparr>"
  have h: "prioridade ?t \<in> set (classes ?g)" by (simp add: classes_def)
  from adicionar_tarefa_moldura[OF h] obtain g' where
    a: "adicionar_tarefa ?g ?t = Inr (True, g')"
    and f: "fila_da_classe g' (prioridade ?t) = fila_da_classe ?g (prioridade ?t) @ [?t]"
    and o: "\<forall>k. k \<noteq> prioridade ?t \<longrightarrow>
        map_of (filas_prioridades g') k = map_of (filas_prioridades ?g) k"
    and c: "classes g' = classes ?g" by blast
  from f have 1: "fila_da_classe g' 2 = [\<lparr>nome = ''M'', descricao = ''mid'', prioridade = 2\<rparr>, ?t]"
    by (simp add: fila_da_classe_def)
  from o have 2: "map_of (filas_prioridades g') 1 =
            Some \<lparr>tarefas = [\<lparr>nome = ''H'', descricao = ''high'', prioridade = 1\<rparr>]\<rparr>"
    and 3: "map_of (filas_prioridades g') 3 = Some \<lparr>tarefas = []\<rparr>"
    by simp_all
  from c have 4: "classes g' = [1, 2, 3]" by (simp add: classes_def)
  have "\<exists>g'. adicionar_tarefa ?g ?t = Inr (True, g')
        \<and> fila_da_classe g' 2 = [\<lparr>nome = ''M'', descricao = ''mid'', prioridade = 2\<rparr>, ?t]
        \<and> map_of (filas_prioridades g') 1 =
            Some \<lparr>tarefas = [\<lparr>nome = ''H'', descricao = ''high'', prioridade = 1\<rparr>]\<rparr>
        \<and> map_of (filas_prioridades g') 3 = Some \<lparr>tarefas = []\<rparr>
        \<and> classes g' = [1, 2, 3]"
    by (rule exI[of _ g']) (simp only: a 1 2 3 4 simp_thms)
  with h show ?thesis by (rule conjI)
qed

end
